theory Spec2Isabelle
  imports Main "HOL-Library.AList"
begin

section \<open>pkg/lib/crd/version.go\<close>

subsection \<open>Data\<close>

text \<open>
  Go's \<open>error\<close> values are only ever built from messages here
  (\<open>fmt.Errorf\<close>, \<open>errors.Wrapf\<close>), so an error is its message.
  A function returning \<open>(T, error)\<close> is a sum: \<open>Inl\<close> the error, \<open>Inr\<close> the value.
\<close>

type_synonym error = string

text \<open>
  The two CRD Go types (apiextensions v1 and v1beta1) are distinct types with the same
  fields as far as this package reads them: \<open>Spec.Versions\<close>, a slice of versions with
  \<open>Name\<close> and \<open>Storage\<close>, and \<open>Status.StoredVersions\<close>, a slice of strings.
  A \<open>runtime.Object\<close> is either of them, or any other object.
\<close>

record CustomResourceDefinitionVersion =
  version_Name :: string
  version_Storage :: bool

record CustomResourceDefinition =
  Spec_Versions :: "CustomResourceDefinitionVersion list"
  Status_StoredVersions :: "string list"

datatype runtime_Object =
    V1_CRD CustomResourceDefinition
  | V1beta1_CRD CustomResourceDefinition
  | Other_Object

text \<open>
  A \<open>map[string]struct{}\<close> is a set of strings. It is kept as the list of its keys
  without duplicates, so that the \<open>range\<close> loop over it is a recursion over a list;
  Go leaves the order of that iteration open, and \<open>range_order_irrelevant\<close> below
  shows that the order does not matter to the loop of \<open>RunStorageMigration\<close>.
\<close>

type_synonym string_set = "string list"

definition set_add :: "string \<Rightarrow> string_set \<Rightarrow> string_set" where
  "set_add k m = (if k \<in> set m then m else m @ [k])"

definition has_key :: "string_set \<Rightarrow> string \<Rightarrow> bool" where
  "has_key m k = (k \<in> set m)"

subsection \<open>Version\<close>

definition V1Beta1Version :: string where
  "V1Beta1Version = ''v1beta1''"

definition V1Version :: string where
  "V1Version = ''v1''"

definition supportedCRDVersions :: string_set where
  "supportedCRDVersions = [V1Beta1Version, V1Version]"

text \<open>
  The YAML/JSON decoder and \<open>unstructured.Unstructured\<close> belong to the Kubernetes
  libraries, not to this repository. They are parameters of the model: \<open>Decode\<close> gives
  the decoder's error or the decoded document, \<open>GroupVersionKind\<close> what the
  document's method of that name returns.
\<close>

record GroupVersionKind =
  gvk_Group :: string
  gvk_Version :: string
  gvk_Kind :: string

record 'u yaml_library =
  Decode :: "string \<Rightarrow> error + 'u"
  GroupVersionKind :: "'u \<Rightarrow> GroupVersionKind"

definition Version :: "'u yaml_library \<Rightarrow> string option \<Rightarrow> error + string" where
  "Version lib manifest =
     (case manifest of
        None \<Rightarrow> Inl ''empty CRD manifest''
      | Some m \<Rightarrow>
          (case Decode lib m of
             Inl err \<Rightarrow> Inl err
           | Inr unst \<Rightarrow>
               (let v = gvk_Version (GroupVersionKind lib unst) in
                if \<not> has_key supportedCRDVersions v
                then Inl (''CRD APIVersion from manifest not supported: '' @ v)
                else Inr v)))"

subsection \<open>RunStorageMigration\<close>

fun stored_loop :: "string list \<Rightarrow> string_set \<Rightarrow> string_set" where
  "stored_loop [] acc = acc"
| "stored_loop (version # rest) acc = stored_loop rest (set_add version acc)"

fun storage_loop :: "CustomResourceDefinitionVersion list \<Rightarrow> string_set \<Rightarrow> string_set" where
  "storage_loop [] acc = acc"
| "storage_loop (version # rest) acc =
     storage_loop rest (if version_Storage version then set_add (version_Name version) acc else acc)"

definition getStoredVersions :: "runtime_Object \<Rightarrow> runtime_Object \<Rightarrow> string_set \<times> string_set" where
  "getStoredVersions oldCRD newCRD =
     (let oldStoredVersions =
            (case oldCRD of
               V1_CRD crd \<Rightarrow> stored_loop (Status_StoredVersions crd) []
             | V1beta1_CRD crd \<Rightarrow> stored_loop (Status_StoredVersions crd) []
             | Other_Object \<Rightarrow> []);
          newStoredVersions =
            (case newCRD of
               V1_CRD crd \<Rightarrow> storage_loop (Spec_Versions crd) []
             | V1beta1_CRD crd \<Rightarrow> storage_loop (Spec_Versions crd) []
             | Other_Object \<Rightarrow> [])
      in (newStoredVersions, oldStoredVersions))"

fun migration_loop :: "string list \<Rightarrow> string_set \<Rightarrow> bool" where
  "migration_loop [] newStoredVersions = True"
| "migration_loop (name # rest) newStoredVersions =
     (if has_key newStoredVersions name then False else migration_loop rest newStoredVersions)"

definition RunStorageMigration :: "runtime_Object \<Rightarrow> runtime_Object \<Rightarrow> bool" where
  "RunStorageMigration oldCRD newCRD =
     (case getStoredVersions oldCRD newCRD of
        (newStoredVersions, oldStoredVersions) \<Rightarrow> migration_loop oldStoredVersions newStoredVersions)"

fun GetNewStorageVersion_loop :: "CustomResourceDefinitionVersion list \<Rightarrow> string" where
  "GetNewStorageVersion_loop [] = ''''"
| "GetNewStorageVersion_loop (version # rest) =
     (if version_Storage version then version_Name version else GetNewStorageVersion_loop rest)"

definition GetNewStorageVersion :: "runtime_Object \<Rightarrow> string" where
  "GetNewStorageVersion crd =
     (case crd of
        V1_CRD c \<Rightarrow> GetNewStorageVersion_loop (Spec_Versions c)
      | V1beta1_CRD c \<Rightarrow> GetNewStorageVersion_loop (Spec_Versions c)
      | Other_Object \<Rightarrow> '''')"

text \<open>
  The sets the specification speaks of, read off the descriptors directly: the stored
  versions of the old CRD's status, and the names of the new CRD's versions that are
  flagged as storage. An object that is no CRD has neither.
\<close>

definition storedVersions :: "runtime_Object \<Rightarrow> string set" where
  "storedVersions obj =
     (case obj of
        V1_CRD crd \<Rightarrow> set (Status_StoredVersions crd)
      | V1beta1_CRD crd \<Rightarrow> set (Status_StoredVersions crd)
      | Other_Object \<Rightarrow> {})"

definition storageVersions :: "runtime_Object \<Rightarrow> string set" where
  "storageVersions obj =
     (case obj of
        V1_CRD crd \<Rightarrow> version_Name ` set (filter version_Storage (Spec_Versions crd))
      | V1beta1_CRD crd \<Rightarrow> version_Name ` set (filter version_Storage (Spec_Versions crd))
      | Other_Object \<Rightarrow> {})"

definition needs_storage_migration_spec :: "runtime_Object \<Rightarrow> runtime_Object \<Rightarrow> bool" where
  "needs_storage_migration_spec oldCRD newCRD =
     (storedVersions oldCRD \<inter> storageVersions newCRD = {})"

section \<open>pkg/controller/registry/reconciler/grpc.go\<close>

subsection \<open>Kubernetes objects, as far as the reconciler reads and writes them\<close>

text \<open>
  A \<open>time.Time\<close> is an instant, counted in nanoseconds after Go's zero time
  (\<open>time.Time{}\<close> is 0); a \<open>time.Duration\<close> is a number of nanoseconds.
  \<open>t.Add(d)\<close> is \<open>t + d\<close>, \<open>t.After(u)\<close> is \<open>u < t\<close> and \<open>t.Before(u)\<close> is \<open>t < u\<close>.
  Go keeps the seconds and the nanoseconds of an instant apart, so adding a duration
  to the zero time or to a timestamp does not wrap around: the integers are unbounded.
\<close>

type_synonym time = int
type_synonym duration = int

text \<open>A \<open>map[string]string\<close> of labels is an association list with distinct keys.\<close>

type_synonym labels = "(string \<times> string) list"

record OwnerReference =
  owner_Name :: string
  owner_BlockOwnerDeletion :: bool
  owner_Controller :: bool

record Container =
  container_Name :: string
  container_Image :: string
  container_ReadinessDelay :: int
  container_LivenessDelay :: int

record ContainerStatus =
  status_ImageID :: string

record v1_Pod =
  pod_Name :: string
  pod_GenerateName :: string
  pod_Namespace :: string
  pod_Labels :: labels
  pod_CreationTimestamp :: time
  pod_OwnerReferences :: "OwnerReference list"
  pod_Containers :: "Container list"
  pod_ContainerStatuses :: "ContainerStatus list"

record ServicePort =
  port_Name :: string
  port_Port :: int
  port_TargetPort :: int

record v1_Service =
  svc_Name :: string
  svc_Namespace :: string
  svc_Ports :: "ServicePort list"
  svc_Selector :: labels
  svc_OwnerReferences :: "OwnerReference list"

record RegistryServiceStatus =
  CreatedAt :: time
  Protocol :: string
  ServiceName :: string
  ServiceNamespace :: string
  Port :: string

record CatalogSource =
  cs_Name :: string
  cs_Namespace :: string
  cs_CreationTimestamp :: time
  Spec_Image :: string
  Spec_Poll_Interval :: duration
  Status_RegistryServiceStatus :: "RegistryServiceStatus option"

text \<open>
  Indexing a slice out of range panics. A function that can panic returns a sum,
  \<open>Inl\<close> the panic.
\<close>

datatype go_panic = IndexOutOfRange

subsection \<open>Label selectors (k8s.io/apimachinery/pkg/labels)\<close>

text \<open>
  \<open>SelectorFromValidatedSet\<close> turns every pair of the set into one requirement
  \<open>key = value\<close> (it also sorts them by key, which matching does not depend on); the
  selector of the empty set has no requirement and matches everything. A requirement
  matches a label set that has the key with exactly that value.
\<close>

datatype Requirement = Equals string string

type_synonym Selector = "Requirement list"

definition SelectorFromValidatedSet :: "labels \<Rightarrow> Selector" where
  "SelectorFromValidatedSet ls = map (\<lambda>(label, v). Equals label v) ls"

fun Requirement_Matches :: "Requirement \<Rightarrow> labels \<Rightarrow> bool" where
  "Requirement_Matches (Equals key v) ls =
     (case map_of ls key of None \<Rightarrow> False | Some v' \<Rightarrow> v' = v)"

definition Matches :: "Selector \<Rightarrow> labels \<Rightarrow> bool" where
  "Matches sel ls = list_all (\<lambda>r. Requirement_Matches r ls) sel"

subsection \<open>Parts of the repository that the decorator calls\<close>

text \<open>
  Modelled from the spec: the constant \<open>CatalogSourceLabelKey\<close> is declared outside the
  files at hand. The specification only says that it is one fixed label key; no proof
  below unfolds its value, except to evaluate an example.
\<close>

definition CatalogSourceLabelKey :: string where
  "CatalogSourceLabelKey = ''olm.catalogSource''"

text \<open>
  Modelled from the spec: \<open>ownerutil.AddOwner\<close> is defined outside the files at hand.
  By the specification it adds an owner reference to the CatalogSource, marked as
  controller and as blocking the owner's deletion as its last two arguments say.
\<close>

definition AddOwner :: "OwnerReference list \<Rightarrow> CatalogSource \<Rightarrow> bool \<Rightarrow> bool \<Rightarrow> OwnerReference list" where
  "AddOwner refs owner blockOwnerDeletion isController =
     refs @ [\<lparr>owner_Name = cs_Name owner,
              owner_BlockOwnerDeletion = blockOwnerDeletion,
              owner_Controller = isController\<rparr>]"

text \<open>
  Modelled from the spec: the package's function \<open>Pod\<close> is defined outside the files at
  hand. By the specification the desired workload has one container using the given
  image, the given readiness and liveness delays and the given labels. The
  specification names nothing else: every other field has Go's zero value, in
  particular the object is not stored yet and its status lists no container.
\<close>

definition Pod :: "CatalogSource \<Rightarrow> string \<Rightarrow> string \<Rightarrow> labels \<Rightarrow> int \<Rightarrow> int \<Rightarrow> v1_Pod" where
  "Pod source name img lbls readinessDelay livenessDelay =
     \<lparr>pod_Name = '''',
      pod_GenerateName = '''',
      pod_Namespace = '''',
      pod_Labels = lbls,
      pod_CreationTimestamp = 0,
      pod_OwnerReferences = [],
      pod_Containers =
        [\<lparr>container_Name = name,
          container_Image = img,
          container_ReadinessDelay = readinessDelay,
          container_LivenessDelay = livenessDelay\<rparr>],
      pod_ContainerStatuses = []\<rparr>"

subsection \<open>grpcCatalogSourceDecorator\<close>

definition Labels :: "CatalogSource \<Rightarrow> labels" where
  "Labels s = [(CatalogSourceLabelKey, cs_Name s)]"

definition Selector :: "CatalogSource \<Rightarrow> Selector" where
  "Selector s = SelectorFromValidatedSet [(CatalogSourceLabelKey, cs_Name s)]"

definition Service :: "CatalogSource \<Rightarrow> v1_Service" where
  "Service s =
     (let svc = \<lparr>svc_Name = cs_Name s,
                 svc_Namespace = cs_Namespace s,
                 svc_Ports = [\<lparr>port_Name = ''grpc'', port_Port = 50051, port_TargetPort = 50051\<rparr>],
                 svc_Selector = Labels s,
                 svc_OwnerReferences = []\<rparr>
      in svc\<lparr>svc_OwnerReferences := AddOwner (svc_OwnerReferences svc) s False False\<rparr>)"

text \<open>The decorator's method \<open>Pod\<close>; the name \<open>Pod\<close> is the package's function above.\<close>

definition decorator_Pod :: "CatalogSource \<Rightarrow> v1_Pod" where
  "decorator_Pod s =
     (let pod = Pod s ''registry-server'' (Spec_Image s) (Labels s) 5 10
      in pod\<lparr>pod_OwnerReferences := AddOwner (pod_OwnerReferences pod) s False False\<rparr>)"

subsection \<open>The reconciler and what surrounds it\<close>

text \<open>
  The calls the reconciler issues to the object store, through \<open>OpClient\<close>. Every
  delete is issued with \<open>metav1.NewDeleteOptions(0)\<close>, which is left out.
\<close>

datatype api_call =
    Pods_Create string v1_Pod
  | Pods_Delete string string
  | CreateService v1_Service
  | DeleteService string string

text \<open>
  The reconciler's fields. \<open>now\<close> is what the \<open>nowFunc\<close> returns on its one call.
  The listers read the cache: \<open>PodLister_List namespace selector\<close> and
  \<open>ServiceLister_Get namespace name\<close> return an error or what they found; the cache
  does not change during one call of the reconciler. \<open>OpClient tr call\<close> is the
  object store's answer to \<open>call\<close>, issued by the reconciling goroutine after the calls
  \<open>tr\<close>: an error, or \<open>None\<close> for success (the reconciling goroutine drops the
  objects that the store returns).
\<close>

record GrpcRegistryReconciler =
  now :: time
  PodLister_List :: "string \<Rightarrow> Selector \<Rightarrow> error + v1_Pod list"
  ServiceLister_Get :: "string \<Rightarrow> string \<Rightarrow> error + v1_Service"
  OpClient :: "api_call list \<Rightarrow> api_call \<Rightarrow> error option"

text \<open>
  What the Go runtime and the world decide during one call of
  \<open>updateRegistryPodByDigest\<close>: the readings of \<open>time.Now()\<close>, in order; the object
  store's answer to the create call of the goroutine running \<open>getPodDigest\<close> (it runs
  beside the reconciling goroutine, so its call has no fixed place among the others);
  and whether that goroutine has run to its end when the reconciling goroutine reaches
  its \<open>select\<close>. A goroutine that has not is not followed any further.
\<close>

record go_runtime =
  time_Now :: "nat \<Rightarrow> time"
  probe_Create :: "string \<Rightarrow> v1_Pod \<Rightarrow> error + v1_Pod"
  probe_runs_first :: bool

text \<open>\<open>errors.Wrapf(err, format, args...)\<close>: the formatted message, a colon, the cause.\<close>

definition Wrapf :: "error \<Rightarrow> string \<Rightarrow> error" where
  "Wrapf err msg = msg @ '': '' @ err"

text \<open>\<open>fmt.Sprintf("%d", n)\<close>.\<close>

fun decimal :: "nat \<Rightarrow> string" where
  "decimal n =
     (if n < 10 then [''0123456789'' ! n]
      else decimal (n div 10) @ [''0123456789'' ! (n mod 10)])"

declare decimal.simps [simp del]

definition Sprintf_d :: "int \<Rightarrow> string" where
  "Sprintf_d n = (if n < 0 then CHR ''-'' # decimal (nat (- n)) else decimal (nat n))"

subsection \<open>Lookups in the cache\<close>

definition currentService :: "GrpcRegistryReconciler \<Rightarrow> CatalogSource \<Rightarrow> v1_Service option" where
  "currentService c source =
     (let serviceName = svc_Name (Service source) in
      case ServiceLister_Get c (cs_Namespace source) serviceName of
        Inl err \<Rightarrow> None
      | Inr service \<Rightarrow> Some service)"

text \<open>
  A slice of pods is a list; a \<open>nil\<close> slice is the empty list (the callers only take
  the length of the result or range over it).
\<close>

definition currentPods :: "GrpcRegistryReconciler \<Rightarrow> CatalogSource \<Rightarrow> v1_Pod list" where
  "currentPods c source =
     (case PodLister_List c (cs_Namespace source) (Selector source) of
        Inl err \<Rightarrow> []
      | Inr pods \<Rightarrow> pods)"

fun correct_image_loop :: "CatalogSource \<Rightarrow> v1_Pod list \<Rightarrow> v1_Pod list \<Rightarrow> go_panic + v1_Pod list" where
  "correct_image_loop source [] found = Inr found"
| "correct_image_loop source (p # pods) found =
     (case pod_Containers p of
        [] \<Rightarrow> Inl IndexOutOfRange
      | container # _ \<Rightarrow>
          if container_Image container = Spec_Image source
          then correct_image_loop source pods (found @ [p])
          else correct_image_loop source pods found)"

definition currentPodsWithCorrectImage :: "GrpcRegistryReconciler \<Rightarrow> CatalogSource \<Rightarrow> go_panic + v1_Pod list" where
  "currentPodsWithCorrectImage c source =
     (case PodLister_List c (cs_Namespace source) (SelectorFromValidatedSet (Labels source)) of
        Inl err \<Rightarrow> Inr []
      | Inr pods \<Rightarrow> correct_image_loop source pods [])"

subsection \<open>getPodDigest and updateRegistryPodByDigest\<close>

text \<open>
  The pod that \<open>getPodDigest\<close> creates: \<open>p := source.Pod()\<close>, then
  \<open>p.Labels[CatalogSourceLabelKey] = ""\<close>. The map is the one \<open>Labels()\<close> has just
  built for this pod, so the assignment changes no other object.
\<close>

definition probe_pod :: "CatalogSource \<Rightarrow> v1_Pod" where
  "probe_pod source =
     (let p = decorator_Pod source
      in p\<lparr>pod_Labels := AList.update CatalogSourceLabelKey '''' (pod_Labels p)\<rparr>)"

text \<open>
  The loop \<open>for i := 0; i < 10; i++\<close>; the second argument counts the rounds that are
  left, the result is \<open>newCatalogSourceImage\<close> after the loop. The pod is the one the
  create call returned, and is not read again from the store; the sleep between two
  rounds changes no value.
\<close>

fun digest_loop :: "v1_Pod \<Rightarrow> nat \<Rightarrow> go_panic + string" where
  "digest_loop pod 0 = Inr ''''"
| "digest_loop pod (Suc n) =
     (case pod_ContainerStatuses pod of
        [] \<Rightarrow> Inl IndexOutOfRange
      | st # _ \<Rightarrow>
          if status_ImageID st = '''' then digest_loop pod n else Inr (status_ImageID st))"

text \<open>
  \<open>getPodDigest\<close> run to its end. The first component is the call it issues, the
  create of the pod \<open>p\<close> in the namespace of the source; the second is what follows
  from the store's answer to that call: a panic, or what it has put on the channel
  (\<open>None\<close> when it returns without sending).
\<close>

definition getPodDigest :: "go_runtime \<Rightarrow> CatalogSource \<Rightarrow> api_call \<times> (go_panic + string option)" where
  "getPodDigest rt source =
     (let p = probe_pod source in
      (Pods_Create (cs_Namespace source) p,
       case probe_Create rt (cs_Namespace source) p of
         Inl err \<Rightarrow> Inr None
       | Inr pod \<Rightarrow>
           (case digest_loop pod 10 of
              Inl panic \<Rightarrow> Inl panic
            | Inr newCatalogSourceImage \<Rightarrow>
                if newCatalogSourceImage = '''' then Inr None
                else (case pod_Containers pod of
                        [] \<Rightarrow> Inl IndexOutOfRange
                      | _ # _ \<Rightarrow>
                          (case pod_ContainerStatuses pod of
                             [] \<Rightarrow> Inl IndexOutOfRange
                           | _ # _ \<Rightarrow> Inr (Some newCatalogSourceImage))))))"

text \<open>
  The condition under which \<open>updateRegistryPodByDigest\<close> starts the goroutine: the
  interval is not zero (otherwise the function has returned already) and the two
  comparisons hold, each with its own reading of the clock.
  \<open>lastCheckedTimestamp\<close> is a local variable, set to the zero time at every call;
  the assignment \<open>lastCheckedTimestamp = time.Now()\<close> that follows the condition
  is to this local variable, which is not read again.
\<close>

definition probe_started :: "go_runtime \<Rightarrow> CatalogSource \<Rightarrow> bool" where
  "probe_started rt source =
     (let lastCheckedTimestamp = (0::time);
          interval = Spec_Poll_Interval source
      in interval \<noteq> 0 \<and>
         lastCheckedTimestamp + interval < time_Now rt 0 \<and>
         cs_CreationTimestamp source + interval < time_Now rt 1)"

text \<open>
  What the \<open>select\<close> finds on \<open>podDigestChan\<close>. The channel is made by this call, so
  only the goroutine started by this call can have sent on it, and only when it has
  run to its end already; if it has panicked, the process has.
\<close>

definition podDigestChan :: "go_runtime \<Rightarrow> CatalogSource \<Rightarrow> go_panic + string option" where
  "podDigestChan rt source =
     (if probe_started rt source \<and> probe_runs_first rt
      then snd (getPodDigest rt source) else Inr None)"

text \<open>
  The result is the boolean together with the calls of the goroutine that this call
  has started with \<open>go c.getPodDigest(source, podDigestChan)\<close>: the create call that
  \<open>getPodDigest\<close> issues first of all.
\<close>

definition updateRegistryPodByDigest :: "go_runtime \<Rightarrow> CatalogSource \<Rightarrow> go_panic + (bool \<times> api_call list)" where
  "updateRegistryPodByDigest rt source =
     (let interval = Spec_Poll_Interval source in
      if interval = 0 then Inr (False, [])
      else
        (let spawned = (if probe_started rt source
                        then [fst (getPodDigest rt source)] else [])
         in case podDigestChan rt source of
              Inl panic \<Rightarrow> Inl panic
            | Inr (Some newCatalogSourceImageDigest) \<Rightarrow>
                (case pod_ContainerStatuses (decorator_Pod source) of
                   [] \<Rightarrow> Inl IndexOutOfRange
                 | st # _ \<Rightarrow>
                     if newCatalogSourceImageDigest = status_ImageID st
                     then Inr (False, spawned)
                     else Inr (True, spawned))
            | Inr None \<Rightarrow> Inr (False, spawned)))"

subsection \<open>ensurePod, ensureService, EnsureRegistryServer, CheckRegistryServer\<close>

text \<open>
  These thread the list of the calls issued so far by the reconciling goroutine, and
  return the error (\<open>None\<close> is Go's \<open>nil\<close>) with the list extended. A call that the
  store answers with an error has been issued all the same.
\<close>

fun delete_loop :: "GrpcRegistryReconciler \<Rightarrow> CatalogSource \<Rightarrow> v1_Pod list \<Rightarrow> api_call list \<Rightarrow> error option \<times> api_call list" where
  "delete_loop c source [] tr = (None, tr)"
| "delete_loop c source (p # pods) tr =
     (let call = Pods_Delete (cs_Namespace source) (pod_Name p) in
      case OpClient c tr call of
        Some err \<Rightarrow> (Some (Wrapf err (''error deleting old pod: '' @ pod_Name p)), tr @ [call])
      | None \<Rightarrow> delete_loop c source pods (tr @ [call]))"

definition ensurePod :: "GrpcRegistryReconciler \<Rightarrow> CatalogSource \<Rightarrow> bool \<Rightarrow> api_call list \<Rightarrow> error option \<times> api_call list" where
  "ensurePod c source overwrite tr =
     (let pods = currentPods c source in
      if length pods > 0 \<and> \<not> overwrite then (None, tr)
      else
        (case (if length pods > 0 then delete_loop c source pods tr else (None, tr)) of
           (Some err, tr') \<Rightarrow> (Some err, tr')
         | (None, tr') \<Rightarrow>
             (let call = Pods_Create (cs_Namespace source) (decorator_Pod source) in
              case OpClient c tr' call of
                None \<Rightarrow> (None, tr' @ [call])
              | Some err \<Rightarrow>
                  (Some (Wrapf err (''error creating new pod: '' @ pod_GenerateName (decorator_Pod source))),
                   tr' @ [call]))))"

definition ensureService :: "GrpcRegistryReconciler \<Rightarrow> CatalogSource \<Rightarrow> bool \<Rightarrow> api_call list \<Rightarrow> error option \<times> api_call list" where
  "ensureService c source overwrite tr =
     (let service = Service source in
      if currentService c source \<noteq> None \<and> \<not> overwrite then (None, tr)
      else
        (case (if currentService c source \<noteq> None
               then (let call = DeleteService (svc_Namespace service) (svc_Name service)
                     in (OpClient c tr call, tr @ [call]))
               else (None, tr)) of
           (Some err, tr') \<Rightarrow> (Some err, tr')
         | (None, tr') \<Rightarrow>
             (let call = CreateService service in (OpClient c tr' call, tr' @ [call]))))"

text \<open>
  What one call of \<open>EnsureRegistryServer\<close> leaves behind when it returns: the error it
  returns, the CatalogSource behind the pointer it was given, the calls it has issued
  itself, in order, and the calls of the goroutines it has started.
\<close>

record ensure_result =
  returned :: "error option"
  descriptor :: CatalogSource
  calls :: "api_call list"
  spawned_calls :: "api_call list"

text \<open>
  The right-hand side of \<open>overwritePod := overwrite || len(...) == 0 || ...\<close>, evaluated
  from left to right as \<open>||\<close> does; with the boolean come the calls of the goroutines
  that its evaluation has started.
\<close>

definition overwritePod_value :: "go_runtime \<Rightarrow> GrpcRegistryReconciler \<Rightarrow> CatalogSource \<Rightarrow> bool \<Rightarrow> go_panic + (bool \<times> api_call list)" where
  "overwritePod_value rt c source overwrite =
     (if overwrite then Inr (True, [])
      else (case currentPodsWithCorrectImage c source of
              Inl panic \<Rightarrow> Inl panic
            | Inr found \<Rightarrow>
                if length found = 0 then Inr (True, [])
                else updateRegistryPodByDigest rt source))"

definition EnsureRegistryServer :: "go_runtime \<Rightarrow> GrpcRegistryReconciler \<Rightarrow> CatalogSource \<Rightarrow> go_panic + ensure_result" where
  "EnsureRegistryServer rt c catalogSource =
     (let source = catalogSource;
          overwrite = (Status_RegistryServiceStatus source = None)
      in case overwritePod_value rt c source overwrite of
           Inl panic \<Rightarrow> Inl panic
         | Inr (overwritePod, spawned) \<Rightarrow>
             (case ensurePod c source overwritePod [] of
                (Some err, tr) \<Rightarrow>
                  Inr \<lparr>returned = Some (Wrapf err (''error ensuring pod: '' @ pod_Name (decorator_Pod source))),
                       descriptor = catalogSource, calls = tr, spawned_calls = spawned\<rparr>
              | (None, tr) \<Rightarrow>
                  (case ensureService c source overwrite tr of
                     (Some err, tr') \<Rightarrow>
                       Inr \<lparr>returned = Some (Wrapf err (''error ensuring service: '' @ svc_Name (Service source))),
                            descriptor = catalogSource, calls = tr', spawned_calls = spawned\<rparr>
                   | (None, tr') \<Rightarrow>
                       if overwritePod
                       then (case svc_Ports (Service source) of
                               [] \<Rightarrow> Inl IndexOutOfRange
                             | port # _ \<Rightarrow>
                                 Inr \<lparr>returned = None,
                                      descriptor = catalogSource
                                        \<lparr>Status_RegistryServiceStatus :=
                                           Some \<lparr>CreatedAt = now c,
                                                 Protocol = ''grpc'',
                                                 ServiceName = svc_Name (Service source),
                                                 ServiceNamespace = cs_Namespace source,
                                                 Port = Sprintf_d (port_Port port)\<rparr>\<rparr>,
                                      calls = tr', spawned_calls = spawned\<rparr>)
                       else Inr \<lparr>returned = None, descriptor = catalogSource,
                                 calls = tr', spawned_calls = spawned\<rparr>)))"

text \<open>The result is the pair \<open>(healthy, err)\<close>.\<close>

definition CheckRegistryServer :: "GrpcRegistryReconciler \<Rightarrow> CatalogSource \<Rightarrow> go_panic + (bool \<times> error option)" where
  "CheckRegistryServer c catalogSource =
     (let source = catalogSource in
      case currentPodsWithCorrectImage c source of
        Inl panic \<Rightarrow> Inl panic
      | Inr found \<Rightarrow>
          if length found < 1 \<or> currentService c source = None
          then Inr (False, None)
          else Inr (True, None))"

section \<open>Notions of the specification, and an example\<close>

text \<open>A pod whose first container uses the image the CatalogSource declares.\<close>

definition has_correct_image :: "CatalogSource \<Rightarrow> v1_Pod \<Rightarrow> bool" where
  "has_correct_image source p =
     (case pod_Containers p of
        [] \<Rightarrow> False
      | container # _ \<Rightarrow> container_Image container = Spec_Image source)"

text \<open>
  The rate gate as the specification words it: more than the poll interval has passed
  since the last check for the source, and since the serving instance was created.
\<close>

definition spec_rate_gate :: "time \<Rightarrow> time \<Rightarrow> time \<Rightarrow> duration \<Rightarrow> bool" where
  "spec_rate_gate t last_check instance_created poll_interval =
     (poll_interval < t - last_check \<and> poll_interval < t - instance_created)"

text \<open>
  A pod lister that answers from the pods it holds (as the lister of
  k8s.io/client-go does over its store): the pods of the namespace whose labels the
  selector matches.
\<close>

definition store_List :: "v1_Pod list \<Rightarrow> string \<Rightarrow> Selector \<Rightarrow> error + v1_Pod list" where
  "store_List store namespace sel =
     Inr (filter (\<lambda>p. pod_Namespace p = namespace \<and> Matches sel (pod_Labels p)) store)"

text \<open>
  A CatalogSource that has been reconciled before, the pod that serves it, a cache that
  holds this pod and the service, an object store that accepts every call, and a
  runtime whose clock reads \<open>t\<close> and whose object store returns the probe pod with
  one container status.
\<close>

definition example_source :: CatalogSource where
  "example_source =
     \<lparr>cs_Name = ''catalog'', cs_Namespace = ''olm'', cs_CreationTimestamp = 100,
      Spec_Image = ''quay.io/catalog:latest'', Spec_Poll_Interval = 10,
      Status_RegistryServiceStatus =
        Some \<lparr>CreatedAt = 995, Protocol = ''grpc'', ServiceName = ''catalog'',
              ServiceNamespace = ''olm'', Port = ''50051''\<rparr>\<rparr>"

definition example_pod :: v1_Pod where
  "example_pod =
     (decorator_Pod example_source)
       \<lparr>pod_Name := ''catalog-x7k2p'', pod_CreationTimestamp := 995,
        pod_ContainerStatuses := [\<lparr>status_ImageID = ''sha256:old''\<rparr>]\<rparr>"

definition example_reconciler :: GrpcRegistryReconciler where
  "example_reconciler =
     \<lparr>now = 1001,
      PodLister_List = (\<lambda>namespace sel.
         if namespace = ''olm'' \<and> Matches sel (pod_Labels example_pod)
         then Inr [example_pod] else Inr []),
      ServiceLister_Get = (\<lambda>namespace name.
         if namespace = ''olm'' \<and> name = ''catalog''
         then Inr (Service example_source) else Inl ''not found''),
      OpClient = (\<lambda>tr call. None)\<rparr>"

definition example_runtime :: "time \<Rightarrow> bool \<Rightarrow> go_runtime" where
  "example_runtime t first =
     \<lparr>time_Now = (\<lambda>k. t),
      probe_Create = (\<lambda>namespace p.
         Inr (p\<lparr>pod_ContainerStatuses := [\<lparr>status_ImageID = ''sha256:new''\<rparr>]\<rparr>)),
      probe_runs_first = first\<rparr>"

section \<open>Storage migration and CRD version\<close>

lemma set_set_add: "set (set_add k m) = insert k (set m)"
  by (auto simp: set_add_def)

lemma set_stored_loop: "set (stored_loop vs acc) = set vs \<union> set acc"
  by (induction vs arbitrary: acc) (auto simp: set_set_add)

lemma set_storage_loop:
  "set (storage_loop vs acc) = version_Name ` set (filter version_Storage vs) \<union> set acc"
  by (induction vs arbitrary: acc) (auto simp: set_set_add)

lemma migration_loop_iff: "migration_loop ks new = (set ks \<inter> set new = {})"
  by (induction ks) (auto simp: has_key_def)

lemma range_order_irrelevant:
  "set ks = set ks' \<Longrightarrow> migration_loop ks new = migration_loop ks' new"
  by (simp add: migration_loop_iff)

lemma getStoredVersions_sets:
  "getStoredVersions oldCRD newCRD = (new, old) \<Longrightarrow>
     set old = storedVersions oldCRD \<and> set new = storageVersions newCRD"
  by (auto simp: getStoredVersions_def storedVersions_def storageVersions_def
      set_stored_loop set_storage_loop split: runtime_Object.splits)

lemma RunStorageMigration_spec:
  "RunStorageMigration oldCRD newCRD = needs_storage_migration_spec oldCRD newCRD"
proof -
  obtain new old where g: "getStoredVersions oldCRD newCRD = (new, old)"
    by (cases "getStoredVersions oldCRD newCRD")
  from getStoredVersions_sets [OF g]
  have "set old = storedVersions oldCRD" and "set new = storageVersions newCRD"
    by simp_all
  with g show ?thesis
    by (simp add: RunStorageMigration_def migration_loop_iff needs_storage_migration_spec_def)
qed

text \<open>
  C1. \<open>RunStorageMigration\<close> returns false if some name of the old CRD's stored
  versions is also the name of a version of the new CRD that is flagged as storage, and
  true otherwise; so it returns true whenever the old CRD has no stored version. This
  holds for either CRD type on either side.
\<close>

theorem RunStorageMigration_decides:
  "RunStorageMigration oldCRD newCRD =
     (\<not> (\<exists>name. name \<in> storedVersions oldCRD \<and> name \<in> storageVersions newCRD)) \<and>
   (storedVersions oldCRD = {} \<longrightarrow> RunStorageMigration oldCRD newCRD)"
  by (auto simp: RunStorageMigration_spec needs_storage_migration_spec_def)

theorem RunStorageMigration_decides_witness:
  "storedVersions (V1_CRD \<lparr>Spec_Versions = [], Status_StoredVersions = []\<rparr>) = {} \<and>
   RunStorageMigration
     (V1_CRD \<lparr>Spec_Versions = [], Status_StoredVersions = []\<rparr>)
     (V1beta1_CRD \<lparr>Spec_Versions = [\<lparr>version_Name = ''v1'', version_Storage = True\<rparr>],
                   Status_StoredVersions = []\<rparr>)"
  using RunStorageMigration_decides
    [of "V1_CRD \<lparr>Spec_Versions = [], Status_StoredVersions = []\<rparr>"
        "V1beta1_CRD \<lparr>Spec_Versions = [\<lparr>version_Name = ''v1'', version_Storage = True\<rparr>],
                      Status_StoredVersions = []\<rparr>"]
  by (simp add: storedVersions_def)

text \<open>The three examples of the specification.\<close>

lemma RunStorageMigration_examples:
  "RunStorageMigration
     (V1_CRD \<lparr>Spec_Versions = [], Status_StoredVersions = [''v1alpha1'', ''v1'']\<rparr>)
     (V1_CRD \<lparr>Spec_Versions = [\<lparr>version_Name = ''v1'', version_Storage = True\<rparr>],
              Status_StoredVersions = []\<rparr>) = False"
  "RunStorageMigration
     (V1beta1_CRD \<lparr>Spec_Versions = [], Status_StoredVersions = [''v1alpha1'']\<rparr>)
     (V1_CRD \<lparr>Spec_Versions = [\<lparr>version_Name = ''v1'', version_Storage = True\<rparr>],
              Status_StoredVersions = []\<rparr>) = True"
  "RunStorageMigration
     (V1_CRD \<lparr>Spec_Versions = [], Status_StoredVersions = []\<rparr>)
     (V1_CRD \<lparr>Spec_Versions = [\<lparr>version_Name = ''v1'', version_Storage = True\<rparr>],
              Status_StoredVersions = []\<rparr>) = True"
  by (simp_all add: RunStorageMigration_def getStoredVersions_def set_add_def has_key_def)

text \<open>
  C6. \<open>Version\<close> returns an error for a nil manifest. For a manifest that the decoder
  accepts, it returns the version of the document's group-version-kind when that is
  \<open>v1\<close> or \<open>v1beta1\<close>, and the error naming the unsupported version otherwise. Nothing
  else of the document is looked at: the result is a function of that version alone.
\<close>

theorem Version_cases:
  "Version lib None = Inl ''empty CRD manifest'' \<and>
   (Decode lib m = Inr unst \<longrightarrow>
      Version lib (Some m) =
        (let v = gvk_Version (GroupVersionKind lib unst) in
         if v = ''v1'' \<or> v = ''v1beta1'' then Inr v
         else Inl (''CRD APIVersion from manifest not supported: '' @ v)))"
  by (auto simp: Version_def has_key_def supportedCRDVersions_def V1Version_def
      V1Beta1Version_def Let_def)

text \<open>
  A decoder that accepts every manifest and a document whose version is the manifest
  itself: \<open>v2\<close> is refused.
\<close>

theorem Version_cases_witness:
  "Decode \<lparr>Decode = Inr, GroupVersionKind = (\<lambda>u. \<lparr>gvk_Group = ''apiextensions.k8s.io'',
        gvk_Version = u, gvk_Kind = ''CustomResourceDefinition''\<rparr>)\<rparr> ''v2'' = Inr ''v2'' \<and>
   Version \<lparr>Decode = Inr, GroupVersionKind = (\<lambda>u. \<lparr>gvk_Group = ''apiextensions.k8s.io'',
        gvk_Version = u, gvk_Kind = ''CustomResourceDefinition''\<rparr>)\<rparr> (Some ''v2'') =
     Inl ''CRD APIVersion from manifest not supported: v2''"
  using Version_cases
    [of "\<lparr>Decode = Inr, GroupVersionKind = (\<lambda>u. \<lparr>gvk_Group = ''apiextensions.k8s.io'',
        gvk_Version = u, gvk_Kind = ''CustomResourceDefinition''\<rparr>)\<rparr>" "''v2''" "''v2''"]
  by simp

lemma Version_examples:
  "Version \<lparr>Decode = Inr, GroupVersionKind = (\<lambda>u. \<lparr>gvk_Group = ''apiextensions.k8s.io'',
        gvk_Version = u, gvk_Kind = ''CustomResourceDefinition''\<rparr>)\<rparr> (Some ''v1'') = Inr ''v1''"
  "Version \<lparr>Decode = Inr, GroupVersionKind = (\<lambda>u. \<lparr>gvk_Group = ''apiextensions.k8s.io'',
        gvk_Version = u, gvk_Kind = ''CustomResourceDefinition''\<rparr>)\<rparr> (Some ''v1beta1'') = Inr ''v1beta1''"
  "Version \<lparr>Decode = (\<lambda>m. Inl ''yaml: did not find expected node''),
        GroupVersionKind = (\<lambda>u. u)\<rparr> (Some ''{'') = Inl ''yaml: did not find expected node''"
  by (simp_all add: Version_def has_key_def supportedCRDVersions_def V1Version_def V1Beta1Version_def)

section \<open>The reconciler\<close>

subsection \<open>What the decorator builds\<close>

lemma Selector_Labels: "Selector cs = SelectorFromValidatedSet (Labels cs)"
  by (simp add: Selector_def Labels_def)

lemma Service_fields:
  "svc_Name (Service cs) = cs_Name cs"
  "svc_Namespace (Service cs) = cs_Namespace cs"
  "svc_Ports (Service cs) = [\<lparr>port_Name = ''grpc'', port_Port = 50051, port_TargetPort = 50051\<rparr>]"
  "svc_Selector (Service cs) = Labels cs"
  by (simp_all add: Service_def)

lemma decorator_Pod_fields:
  "pod_ContainerStatuses (decorator_Pod cs) = []"
  "pod_Labels (decorator_Pod cs) = Labels cs"
  "pod_Containers (decorator_Pod cs) =
     [\<lparr>container_Name = ''registry-server'', container_Image = Spec_Image cs,
       container_ReadinessDelay = 5, container_LivenessDelay = 10\<rparr>]"
  by (simp_all add: decorator_Pod_def Pod_def)

lemma probe_pod_fields:
  "pod_Containers (probe_pod cs) = pod_Containers (decorator_Pod cs)"
  "pod_Labels (probe_pod cs) = [(CatalogSourceLabelKey, '''')]"
  by (simp_all add: probe_pod_def decorator_Pod_fields Labels_def)

lemma decimal_small: "n < 10 \<Longrightarrow> decimal n = [''0123456789'' ! n]"
  by (subst decimal.simps) simp

lemma decimal_big:
  "\<not> n < 10 \<Longrightarrow> decimal n = decimal (n div 10) @ [''0123456789'' ! (n mod 10)]"
  by (subst decimal.simps) simp

lemma Sprintf_d_port: "Sprintf_d 50051 = ''50051''"
  by (simp add: Sprintf_d_def decimal_small decimal_big)

subsection \<open>The loops\<close>

lemma correct_image_loop_ok:
  "\<forall>p\<in>set pods. pod_Containers p \<noteq> [] \<Longrightarrow>
     correct_image_loop cs pods found = Inr (found @ filter (has_correct_image cs) pods)"
  by (induction pods arbitrary: found) (auto simp: has_correct_image_def split: list.splits)

lemma correct_image_loop_panics:
  "\<exists>p\<in>set pods. pod_Containers p = [] \<Longrightarrow>
     correct_image_loop cs pods found = Inl IndexOutOfRange"
  by (induction pods arbitrary: found) (auto split: list.splits)

lemma delete_loop_success:
  "fst (delete_loop c cs pods tr) = None \<Longrightarrow>
     snd (delete_loop c cs pods tr) =
       tr @ map (\<lambda>p. Pods_Delete (cs_Namespace cs) (pod_Name p)) pods"
  by (induction pods arbitrary: tr) (auto simp: Let_def split: option.splits)

lemma digest_loop_Suc:
  "digest_loop pod (Suc n) =
     (case pod_ContainerStatuses pod of
        [] \<Rightarrow> Inl IndexOutOfRange
      | st # _ \<Rightarrow> Inr (status_ImageID st))"
  by (induction n) (auto split: list.splits)

lemma digest_loop_10:
  "digest_loop pod 10 =
     (case pod_ContainerStatuses pod of
        [] \<Rightarrow> Inl IndexOutOfRange
      | st # _ \<Rightarrow> Inr (status_ImageID st))"
  using digest_loop_Suc [of pod 9] by simp

subsection \<open>The first reconcile\<close>

lemma ensurePod_overwrite_success:
  assumes "ensurePod c cs True tr = (None, tr')"
  shows "tr' = tr @ map (\<lambda>p. Pods_Delete (cs_Namespace cs) (pod_Name p)) (currentPods c cs)
              @ [Pods_Create (cs_Namespace cs) (decorator_Pod cs)]"
proof -
  obtain e d where d: "delete_loop c cs (currentPods c cs) tr = (e, d)"
    by (cases "delete_loop c cs (currentPods c cs) tr")
  show ?thesis
  proof (cases "currentPods c cs")
    case Nil
    with assms show ?thesis
      by (auto simp: ensurePod_def Let_def split: option.splits)
  next
    case (Cons p ps)
    with assms d have e: "e = None"
      by (auto simp: ensurePod_def Let_def split: option.splits)
    with d delete_loop_success [of c cs "currentPods c cs" tr]
    have "d = tr @ map (\<lambda>p. Pods_Delete (cs_Namespace cs) (pod_Name p)) (currentPods c cs)"
      by simp
    with assms d e Cons show ?thesis
      by (auto simp: ensurePod_def Let_def split: option.splits)
  qed
qed



lemmas example_defs =
  example_source_def example_pod_def example_reconciler_def example_runtime_def
  decorator_Pod_def Pod_def Labels_def Service_def AddOwner_def Selector_def
  SelectorFromValidatedSet_def Matches_def CatalogSourceLabelKey_def

lemmas reconciler_defs =
  currentPods_def currentService_def currentPodsWithCorrectImage_def
  ensurePod_def ensureService_def EnsureRegistryServer_def overwritePod_value_def
  CheckRegistryServer_def
  updateRegistryPodByDigest_def podDigestChan_def probe_started_def getPodDigest_def
  probe_pod_def digest_loop_10 Sprintf_d_port



subsection \<open>Lookups in the cache\<close>

lemma currentPodsWithCorrectImage_listed:
  "PodLister_List c (cs_Namespace cs) (Selector cs) = Inr pods \<Longrightarrow>
   \<forall>p\<in>set pods. pod_Containers p \<noteq> [] \<Longrightarrow>
     currentPodsWithCorrectImage c cs = Inr (filter (has_correct_image cs) pods)"
  by (simp add: currentPodsWithCorrectImage_def Selector_Labels [symmetric] correct_image_loop_ok)

lemma currentPodsWithCorrectImage_error:
  "PodLister_List c (cs_Namespace cs) (Selector cs) = Inl e \<Longrightarrow>
     currentPodsWithCorrectImage c cs = Inr []"
  by (simp add: currentPodsWithCorrectImage_def Selector_Labels [symmetric])

lemma currentPodsWithCorrectImage_panics:
  "PodLister_List c (cs_Namespace cs) (Selector cs) = Inr pods \<Longrightarrow>
   \<exists>p\<in>set pods. pod_Containers p = [] \<Longrightarrow>
     currentPodsWithCorrectImage c cs = Inl IndexOutOfRange"
  by (simp add: currentPodsWithCorrectImage_def Selector_Labels [symmetric] correct_image_loop_panics)

lemma currentPodsWithCorrectImage_safe:
  assumes "\<forall>pods. PodLister_List c (cs_Namespace cs) (Selector cs) = Inr pods \<longrightarrow>
             (\<forall>p\<in>set pods. pod_Containers p \<noteq> [])"
  shows "\<exists>found. currentPodsWithCorrectImage c cs = Inr found"
proof (cases "PodLister_List c (cs_Namespace cs) (Selector cs)")
  case (Inl e)
  then show ?thesis
    by (simp add: currentPodsWithCorrectImage_error)
next
  case (Inr pods)
  with assms show ?thesis
    by (simp add: currentPodsWithCorrectImage_listed)
qed

lemma currentService_Some:
  "(currentService c cs \<noteq> None) = (\<exists>svc. ServiceLister_Get c (cs_Namespace cs) (cs_Name cs) = Inr svc)"
  by (auto simp: currentService_def Service_fields split: sum.splits)

text \<open>
  C7. Provided every pod that the cache lookup returns has a first container (which the
  lookup of the images takes for granted), \<open>CheckRegistryServer\<close> returns no error, and
  returns true exactly when the lookup by the canonical label returns a pod whose first
  container uses the declared image and the lookup of the service returns the service.
  So it returns false when the service is absent, and false when no returned pod uses
  the declared image.
\<close>

theorem CheckRegistryServer_healthy_iff:
  assumes "\<forall>pods. PodLister_List c (cs_Namespace cs) (Selector cs) = Inr pods \<longrightarrow>
             (\<forall>p\<in>set pods. pod_Containers p \<noteq> [])"
  shows "CheckRegistryServer c cs =
           Inr ((\<exists>pods. PodLister_List c (cs_Namespace cs) (Selector cs) = Inr pods \<and>
                        (\<exists>p\<in>set pods. has_correct_image cs p)) \<and>
                (\<exists>svc. ServiceLister_Get c (cs_Namespace cs) (cs_Name cs) = Inr svc),
                None)"
proof (cases "PodLister_List c (cs_Namespace cs) (Selector cs)")
  case (Inl e)
  then show ?thesis
    by (simp add: CheckRegistryServer_def currentPodsWithCorrectImage_error)
next
  case (Inr pods)
  with assms have "\<forall>p\<in>set pods. pod_Containers p \<noteq> []"
    by simp
  with Inr have f: "currentPodsWithCorrectImage c cs = Inr (filter (has_correct_image cs) pods)"
    by (rule currentPodsWithCorrectImage_listed)
  have "(length (filter (has_correct_image cs) pods) < 1) = (\<not> (\<exists>p\<in>set pods. has_correct_image cs p))"
    by (simp add: filter_empty_conv)
  with Inr f currentService_Some [of c cs] show ?thesis
    by (auto simp: CheckRegistryServer_def)
qed

theorem CheckRegistryServer_healthy_iff_witness:
  "PodLister_List example_reconciler (cs_Namespace example_source) (Selector example_source) =
     Inr [example_pod] \<and>
   pod_Containers example_pod \<noteq> [] \<and>
   has_correct_image example_source example_pod \<and>
   ServiceLister_Get example_reconciler (cs_Namespace example_source) (cs_Name example_source) =
     Inr (Service example_source) \<and>
   CheckRegistryServer example_reconciler example_source = Inr (True, None)"
proof -
  have l: "PodLister_List example_reconciler (cs_Namespace example_source) (Selector example_source) =
     Inr [example_pod]"
    by (simp add: example_defs)
  have k: "pod_Containers example_pod \<noteq> []" "has_correct_image example_source example_pod"
    by (simp_all add: example_defs has_correct_image_def)
  have g: "ServiceLister_Get example_reconciler (cs_Namespace example_source) (cs_Name example_source) =
     Inr (Service example_source)"
    by (simp add: example_defs)
  from l k have "\<forall>pods. PodLister_List example_reconciler (cs_Namespace example_source)
      (Selector example_source) = Inr pods \<longrightarrow> (\<forall>p\<in>set pods. pod_Containers p \<noteq> [])"
    by simp
  from CheckRegistryServer_healthy_iff [OF this] l k g
  have "CheckRegistryServer example_reconciler example_source = Inr (True, None)"
    by simp
  with l k g show ?thesis by simp
qed

text \<open>The two cases that the specification singles out, in the example.\<close>

lemma CheckRegistryServer_examples:
  "CheckRegistryServer
     (example_reconciler\<lparr>ServiceLister_Get := (\<lambda>namespace name. Inl ''not found'')\<rparr>)
     example_source = Inr (False, None)"
  "CheckRegistryServer example_reconciler
     (example_source\<lparr>Spec_Image := ''quay.io/catalog:v2''\<rparr>) = Inr (False, None)"
  by (simp_all add: reconciler_defs example_defs)

subsection \<open>updateRegistryPodByDigest\<close>

lemma getPodDigest_call:
  "fst (getPodDigest rt cs) = Pods_Create (cs_Namespace cs) (probe_pod cs)"
  by (simp add: getPodDigest_def Let_def)

lemma updateRegistryPodByDigest_disabled:
  "Spec_Poll_Interval cs = 0 \<Longrightarrow> updateRegistryPodByDigest rt cs = Inr (False, [])"
  by (simp add: updateRegistryPodByDigest_def)

lemma updateRegistryPodByDigest_nothing_delivered:
  "podDigestChan rt cs = Inr None \<Longrightarrow>
     updateRegistryPodByDigest rt cs =
       Inr (False, if probe_started rt cs then [Pods_Create (cs_Namespace cs) (probe_pod cs)] else [])"
  by (simp add: updateRegistryPodByDigest_def probe_started_def getPodDigest_call)

lemma updateRegistryPodByDigest_delivered:
  "podDigestChan rt cs = Inr (Some d) \<Longrightarrow> updateRegistryPodByDigest rt cs = Inl IndexOutOfRange"
  by (auto simp: updateRegistryPodByDigest_def podDigestChan_def probe_started_def Let_def
      decorator_Pod_fields split: if_splits)

lemma updateRegistryPodByDigest_spawned:
  "updateRegistryPodByDigest rt cs = Inr (b, spawned) \<Longrightarrow>
     spawned = (if probe_started rt cs then [Pods_Create (cs_Namespace cs) (probe_pod cs)] else [])"
  by (auto simp: updateRegistryPodByDigest_def probe_started_def Let_def decorator_Pod_fields
      getPodDigest_call split: if_splits sum.splits option.splits)

lemma updateRegistryPodByDigest_not_started:
  "\<not> probe_started rt cs \<Longrightarrow> updateRegistryPodByDigest rt cs = Inr (False, [])"
  by (simp add: updateRegistryPodByDigest_def podDigestChan_def)

text \<open>
  C4, as the code has it. With a positive poll interval, \<open>updateRegistryPodByDigest\<close>
  starts the goroutine that creates the probe pod only if more than the poll interval
  has passed since the creation timestamp of the CatalogSource; while that is not so,
  it starts nothing and returns false. The time of the last check is not part of the
  statement.
\<close>

theorem probe_needs_source_age:
  assumes "0 < Spec_Poll_Interval cs"
  shows "(probe_started rt cs \<longrightarrow>
            Spec_Poll_Interval cs < time_Now rt 1 - cs_CreationTimestamp cs) \<and>
         (\<forall>b spawned. updateRegistryPodByDigest rt cs = Inr (b, spawned) \<and> spawned \<noteq> [] \<longrightarrow>
            Spec_Poll_Interval cs < time_Now rt 1 - cs_CreationTimestamp cs) \<and>
         (\<not> Spec_Poll_Interval cs < time_Now rt 1 - cs_CreationTimestamp cs \<longrightarrow>
            updateRegistryPodByDigest rt cs = Inr (False, []))"
proof -
  have a: "probe_started rt cs \<Longrightarrow> Spec_Poll_Interval cs < time_Now rt 1 - cs_CreationTimestamp cs"
    by (simp add: probe_started_def Let_def)
  have b: "spawned \<noteq> [] \<Longrightarrow> updateRegistryPodByDigest rt cs = Inr (b, spawned) \<Longrightarrow> probe_started rt cs"
    for b spawned
    using updateRegistryPodByDigest_spawned [of rt cs b spawned] by (auto split: if_splits)
  have c: "\<not> Spec_Poll_Interval cs < time_Now rt 1 - cs_CreationTimestamp cs \<Longrightarrow>
      updateRegistryPodByDigest rt cs = Inr (False, [])"
    using a updateRegistryPodByDigest_not_started [of rt cs] by blast
  from a b c show ?thesis by blast
qed

theorem probe_needs_source_age_witness:
  "0 < Spec_Poll_Interval example_source \<and>
   probe_started (example_runtime 1001 False) example_source \<and>
   Spec_Poll_Interval example_source
     < time_Now (example_runtime 1001 False) 1 - cs_CreationTimestamp example_source \<and>
   \<not> Spec_Poll_Interval example_source
     < time_Now (example_runtime 105 False) 1 - cs_CreationTimestamp example_source \<and>
   updateRegistryPodByDigest (example_runtime 105 False) example_source = Inr (False, [])"
  using probe_needs_source_age [of example_source "example_runtime 1001 False"]
    probe_needs_source_age [of example_source "example_runtime 105 False"]
  by (simp add: example_source_def example_runtime_def probe_started_def)

text \<open>
  C4, as it is stated, fails. The example has a poll interval of 10 and a serving pod
  created at 995. A call at time 1000 starts a probe; the next call, at time 1001,
  starts a probe again, one unit of time after the last check and six after the
  creation of the serving pod: both gates of the specification are closed.
\<close>

theorem rate_gate_counterexample:
  "0 < Spec_Poll_Interval example_source \<and>
   updateRegistryPodByDigest (example_runtime 1000 False) example_source =
     Inr (False, [Pods_Create ''olm'' (probe_pod example_source)]) \<and>
   updateRegistryPodByDigest (example_runtime 1001 False) example_source =
     Inr (False, [Pods_Create ''olm'' (probe_pod example_source)]) \<and>
   currentPodsWithCorrectImage example_reconciler example_source = Inr [example_pod] \<and>
   pod_CreationTimestamp example_pod = 995 \<and>
   \<not> spec_rate_gate 1001 1000 (pod_CreationTimestamp example_pod) (Spec_Poll_Interval example_source) \<and>
   \<not> Spec_Poll_Interval example_source < 1001 - 1000 \<and>
   \<not> Spec_Poll_Interval example_source < 1001 - pod_CreationTimestamp example_pod"
proof -
  have n: "podDigestChan (example_runtime t False) example_source = Inr None" for t
    by (simp add: podDigestChan_def example_runtime_def)
  have s: "probe_started (example_runtime 1000 False) example_source"
    "probe_started (example_runtime 1001 False) example_source"
    by (simp_all add: probe_started_def example_runtime_def example_source_def)
  have ns: "cs_Namespace example_source = ''olm''"
    by (simp add: example_source_def)
  have u: "updateRegistryPodByDigest (example_runtime 1000 False) example_source =
     Inr (False, [Pods_Create ''olm'' (probe_pod example_source)])"
    "updateRegistryPodByDigest (example_runtime 1001 False) example_source =
     Inr (False, [Pods_Create ''olm'' (probe_pod example_source)])"
    using s by (simp_all add: updateRegistryPodByDigest_nothing_delivered [OF n] ns)
  have p: "currentPodsWithCorrectImage example_reconciler example_source = Inr [example_pod]"
    by (simp add: currentPodsWithCorrectImage_def example_defs)
  have r: "pod_CreationTimestamp example_pod = 995" "Spec_Poll_Interval example_source = 10"
    by (simp_all add: example_pod_def example_source_def)
  from u p r show ?thesis
    by (simp add: spec_rate_gate_def)
qed

text \<open>
  C5. With a poll interval of 0 the result is false, and so it is when nothing has been
  delivered on the channel (\<open>updateRegistryPodByDigest_disabled\<close>,
  \<open>updateRegistryPodByDigest_nothing_delivered\<close>). When a digest has been delivered,
  the function does not compare it with the digest of the serving pod: it indexes the
  container statuses of the desired pod, which it has just built and which has none,
  and panics (\<open>updateRegistryPodByDigest_delivered\<close>). In the example the probe has
  delivered \<open>sha256:new\<close> and the serving pod reports \<open>sha256:old\<close>; the result should
  be true, and is a panic.
\<close>

theorem digest_branch_panics:
  "Spec_Poll_Interval example_source \<noteq> 0 \<and>
   podDigestChan (example_runtime 1001 True) example_source = Inr (Some ''sha256:new'') \<and>
   currentPodsWithCorrectImage example_reconciler example_source = Inr [example_pod] \<and>
   map status_ImageID (pod_ContainerStatuses example_pod) = [''sha256:old''] \<and>
   updateRegistryPodByDigest (example_runtime 1001 True) example_source = Inl IndexOutOfRange"
proof -
  have d: "podDigestChan (example_runtime 1001 True) example_source = Inr (Some ''sha256:new'')"
    by (simp add: podDigestChan_def probe_started_def getPodDigest_def digest_loop_10
        probe_pod_def example_defs)
  have p: "currentPodsWithCorrectImage example_reconciler example_source = Inr [example_pod]"
    by (simp add: currentPodsWithCorrectImage_def example_defs)
  have r: "map status_ImageID (pod_ContainerStatuses example_pod) = [''sha256:old'']"
    "Spec_Poll_Interval example_source \<noteq> 0"
    by (simp_all add: example_pod_def example_source_def)
  from d p r updateRegistryPodByDigest_delivered [OF d] show ?thesis
    by simp
qed

subsection \<open>The converged state\<close>

lemma ensurePod_keep:
  "currentPods c cs \<noteq> [] \<Longrightarrow> ensurePod c cs False tr = (None, tr)"
  by (simp add: ensurePod_def)

lemma ensureService_keep:
  "currentService c cs \<noteq> None \<Longrightarrow> ensureService c cs False tr = (None, tr)"
  by (simp add: ensureService_def)

lemma ensureService_extends:
  "ensureService c cs b tr = (e, tr') \<Longrightarrow> set tr \<subseteq> set tr'"
  by (auto simp: ensureService_def Let_def split: if_splits option.splits)

lemma EnsureRegistryServer_steps:
  assumes "overwritePod_value rt c cs (Status_RegistryServiceStatus cs = None) = Inr (b, spawned)"
      and "ensurePod c cs b [] = (e1, tr1)"
      and "ensureService c cs (Status_RegistryServiceStatus cs = None) tr1 = (e2, tr2)"
  shows "EnsureRegistryServer rt c cs =
           Inr (case e1 of
                  Some err \<Rightarrow>
                    \<lparr>returned = Some (Wrapf err (''error ensuring pod: '' @ pod_Name (decorator_Pod cs))),
                     descriptor = cs, calls = tr1, spawned_calls = spawned\<rparr>
                | None \<Rightarrow>
                    (case e2 of
                       Some err \<Rightarrow>
                         \<lparr>returned = Some (Wrapf err (''error ensuring service: '' @ cs_Name cs)),
                          descriptor = cs, calls = tr2, spawned_calls = spawned\<rparr>
                     | None \<Rightarrow>
                         \<lparr>returned = None,
                          descriptor =
                            (if b
                             then cs\<lparr>Status_RegistryServiceStatus :=
                                       Some \<lparr>CreatedAt = now c, Protocol = ''grpc'',
                                             ServiceName = cs_Name cs,
                                             ServiceNamespace = cs_Namespace cs,
                                             Port = ''50051''\<rparr>\<rparr>
                             else cs),
                          calls = tr2, spawned_calls = spawned\<rparr>))"
  using assms
  by (simp add: EnsureRegistryServer_def Service_fields Sprintf_d_port split: option.splits)

lemma EnsureRegistryServer_descriptor:
  assumes "EnsureRegistryServer rt c cs = Inr r"
  shows "descriptor r = cs \<or>
         (returned r = None \<and>
          Pods_Create (cs_Namespace cs) (decorator_Pod cs) \<in> set (calls r) \<and>
          descriptor r =
            cs\<lparr>Status_RegistryServiceStatus :=
                 Some \<lparr>CreatedAt = now c, Protocol = ''grpc'', ServiceName = cs_Name cs,
                       ServiceNamespace = cs_Namespace cs, Port = ''50051''\<rparr>\<rparr>)"
proof (cases "overwritePod_value rt c cs (Status_RegistryServiceStatus cs = None)")
  case (Inl panic)
  with assms show ?thesis
    by (simp add: EnsureRegistryServer_def)
next
  case (Inr v)
  obtain b spawned where v: "v = (b, spawned)"
    by (cases v)
  obtain e1 tr1 where p: "ensurePod c cs b [] = (e1, tr1)"
    by (cases "ensurePod c cs b []")
  obtain e2 tr2 where s: "ensureService c cs (Status_RegistryServiceStatus cs = None) tr1 = (e2, tr2)"
    by (cases "ensureService c cs (Status_RegistryServiceStatus cs = None) tr1")
  note steps = EnsureRegistryServer_steps [OF Inr [unfolded v] p s]
  show ?thesis
  proof (cases "b \<and> e1 = None \<and> e2 = None")
    case False
    with assms steps show ?thesis
      by (auto split: option.splits)
  next
    case True
    with p have "Pods_Create (cs_Namespace cs) (decorator_Pod cs) \<in> set tr1"
      using ensurePod_overwrite_success [of c cs "[]" tr1] by simp
    with s have "Pods_Create (cs_Namespace cs) (decorator_Pod cs) \<in> set tr2"
      using ensureService_extends [of c cs _ tr1 e2 tr2] by blast
    with True assms steps show ?thesis
      by auto
  qed
qed

text \<open>
  C3, as the code has it. Let the status be present, let the cache lookup return pods
  that all have a first container and of which one uses the declared image, let the
  cache hold the service, and let \<open>updateRegistryPodByDigest\<close> return false. Then
  \<open>EnsureRegistryServer\<close> returns without an error, has issued no call itself, and
  leaves the CatalogSource as it was. The one call it can have caused is the create of
  the probe pod, by the goroutine that \<open>updateRegistryPodByDigest\<close> starts when its
  condition holds; with a poll interval of 0 there is none. Last conjunct: in any call,
  the CatalogSource is returned unchanged, or with its status overwritten after the
  desired pod has been created.
\<close>

theorem converged_reconcile_is_quiet:
  assumes st: "Status_RegistryServiceStatus cs = Some st"
      and l: "PodLister_List c (cs_Namespace cs) (Selector cs) = Inr pods"
      and k: "\<forall>p\<in>set pods. pod_Containers p \<noteq> []"
      and m: "\<exists>p\<in>set pods. has_correct_image cs p"
      and g: "ServiceLister_Get c (cs_Namespace cs) (cs_Name cs) = Inr svc"
      and u: "updateRegistryPodByDigest rt cs = Inr (False, spawned)"
  shows "EnsureRegistryServer rt c cs =
           Inr \<lparr>returned = None, descriptor = cs, calls = [], spawned_calls = spawned\<rparr> \<and>
         spawned = (if probe_started rt cs
                    then [Pods_Create (cs_Namespace cs) (probe_pod cs)] else []) \<and>
         (Spec_Poll_Interval cs = 0 \<longrightarrow> spawned = []) \<and>
         (\<forall>rt' c' cs' r. EnsureRegistryServer rt' c' cs' = Inr r \<longrightarrow>
            descriptor r = cs' \<or>
            (returned r = None \<and>
             Pods_Create (cs_Namespace cs') (decorator_Pod cs') \<in> set (calls r) \<and>
             descriptor r =
               cs'\<lparr>Status_RegistryServiceStatus :=
                     Some \<lparr>CreatedAt = now c', Protocol = ''grpc'', ServiceName = cs_Name cs',
                           ServiceNamespace = cs_Namespace cs', Port = ''50051''\<rparr>\<rparr>))"
proof -
  from l k have f: "currentPodsWithCorrectImage c cs = Inr (filter (has_correct_image cs) pods)"
    by (rule currentPodsWithCorrectImage_listed)
  from m have "filter (has_correct_image cs) pods \<noteq> []"
    by (simp add: filter_empty_conv)
  with f u st have o: "overwritePod_value rt c cs (Status_RegistryServiceStatus cs = None) = Inr (False, spawned)"
    by (simp add: overwritePod_value_def)
  from l m have "currentPods c cs \<noteq> []"
    by (auto simp: currentPods_def)
  then have p: "ensurePod c cs False [] = (None, [])"
    by (rule ensurePod_keep)
  from g have "currentService c cs \<noteq> None"
    unfolding currentService_Some by blast
  from ensureService_keep [OF this] st
  have s: "ensureService c cs (Status_RegistryServiceStatus cs = None) [] = (None, [])"
    by simp
  have 1: "EnsureRegistryServer rt c cs =
           Inr \<lparr>returned = None, descriptor = cs, calls = [], spawned_calls = spawned\<rparr>"
    using EnsureRegistryServer_steps [OF o p s] by simp
  have 2: "spawned = (if probe_started rt cs
                    then [Pods_Create (cs_Namespace cs) (probe_pod cs)] else [])"
    using u by (rule updateRegistryPodByDigest_spawned)
  have 3: "Spec_Poll_Interval cs = 0 \<longrightarrow> spawned = []"
    using 2 by (simp add: probe_started_def)
  from 1 2 3 EnsureRegistryServer_descriptor show ?thesis
    by blast
qed

text \<open>The example with polling switched off: no call at all.\<close>

theorem converged_reconcile_is_quiet_witness:
  "Status_RegistryServiceStatus (example_source\<lparr>Spec_Poll_Interval := 0\<rparr>) \<noteq> None \<and>
   PodLister_List example_reconciler ''olm'' (Selector (example_source\<lparr>Spec_Poll_Interval := 0\<rparr>)) =
     Inr [example_pod] \<and>
   pod_Containers example_pod \<noteq> [] \<and>
   has_correct_image (example_source\<lparr>Spec_Poll_Interval := 0\<rparr>) example_pod \<and>
   ServiceLister_Get example_reconciler ''olm'' ''catalog'' = Inr (Service example_source) \<and>
   updateRegistryPodByDigest (example_runtime 1001 False) (example_source\<lparr>Spec_Poll_Interval := 0\<rparr>) =
     Inr (False, []) \<and>
   EnsureRegistryServer (example_runtime 1001 False) example_reconciler
       (example_source\<lparr>Spec_Poll_Interval := 0\<rparr>) =
     Inr \<lparr>returned = None, descriptor = example_source\<lparr>Spec_Poll_Interval := 0\<rparr>,
          calls = [], spawned_calls = []\<rparr>"
proof -
  let ?cs = "example_source\<lparr>Spec_Poll_Interval := 0\<rparr>"
  have st: "Status_RegistryServiceStatus ?cs =
     Some \<lparr>CreatedAt = 995, Protocol = ''grpc'', ServiceName = ''catalog'',
           ServiceNamespace = ''olm'', Port = ''50051''\<rparr>"
    by (simp add: example_source_def)
  have n: "cs_Namespace ?cs = ''olm''" "cs_Name ?cs = ''catalog''"
    by (simp_all add: example_source_def)
  have l: "PodLister_List example_reconciler (cs_Namespace ?cs) (Selector ?cs) = Inr [example_pod]"
    by (simp add: example_defs)
  have k: "\<forall>p\<in>set [example_pod]. pod_Containers p \<noteq> []"
    by (simp add: example_defs)
  have m: "\<exists>p\<in>set [example_pod]. has_correct_image ?cs p"
    by (simp add: example_defs has_correct_image_def)
  have g: "ServiceLister_Get example_reconciler (cs_Namespace ?cs) (cs_Name ?cs) =
     Inr (Service example_source)"
    by (simp add: example_reconciler_def example_source_def)
  have u: "updateRegistryPodByDigest (example_runtime 1001 False) ?cs = Inr (False, [])"
    by (simp add: updateRegistryPodByDigest_disabled)
  from converged_reconcile_is_quiet [OF st l k m g u] st l k m g u n show ?thesis
    by simp
qed

text \<open>
  C3, as it is stated, fails. In the example the status is present, the cached pod uses
  the declared image, the service is cached and \<open>updateRegistryPodByDigest\<close> returns
  false, since the probe it has just started has delivered nothing yet; the started
  goroutine issues the create call for the probe pod.
\<close>

theorem probe_create_counterexample:
  "Status_RegistryServiceStatus example_source \<noteq> None \<and>
   PodLister_List example_reconciler ''olm'' (Selector example_source) = Inr [example_pod] \<and>
   has_correct_image example_source example_pod \<and>
   ServiceLister_Get example_reconciler ''olm'' ''catalog'' = Inr (Service example_source) \<and>
   updateRegistryPodByDigest (example_runtime 1001 False) example_source =
     Inr (False, [Pods_Create ''olm'' (probe_pod example_source)]) \<and>
   EnsureRegistryServer (example_runtime 1001 False) example_reconciler example_source =
     Inr \<lparr>returned = None, descriptor = example_source, calls = [],
          spawned_calls = [Pods_Create ''olm'' (probe_pod example_source)]\<rparr> \<and>
   spawned_calls (projr (EnsureRegistryServer (example_runtime 1001 False) example_reconciler
     example_source)) \<noteq> []"
proof -
  have st: "Status_RegistryServiceStatus example_source =
     Some \<lparr>CreatedAt = 995, Protocol = ''grpc'', ServiceName = ''catalog'',
           ServiceNamespace = ''olm'', Port = ''50051''\<rparr>"
    by (simp add: example_source_def)
  have n: "cs_Namespace example_source = ''olm''" "cs_Name example_source = ''catalog''"
    by (simp_all add: example_source_def)
  have l: "PodLister_List example_reconciler (cs_Namespace example_source) (Selector example_source) =
     Inr [example_pod]"
    by (simp add: example_defs)
  have k: "\<forall>p\<in>set [example_pod]. pod_Containers p \<noteq> []"
    by (simp add: example_defs)
  have m: "\<exists>p\<in>set [example_pod]. has_correct_image example_source p"
    by (simp add: example_defs has_correct_image_def)
  have g: "ServiceLister_Get example_reconciler (cs_Namespace example_source) (cs_Name example_source) =
     Inr (Service example_source)"
    by (simp add: example_reconciler_def example_source_def)
  have d: "podDigestChan (example_runtime 1001 False) example_source = Inr None"
    by (simp add: podDigestChan_def example_runtime_def)
  have s: "probe_started (example_runtime 1001 False) example_source"
    by (simp add: probe_started_def example_runtime_def example_source_def)
  have u: "updateRegistryPodByDigest (example_runtime 1001 False) example_source =
     Inr (False, [Pods_Create ''olm'' (probe_pod example_source)])"
    using s by (simp add: updateRegistryPodByDigest_nothing_delivered [OF d] n)
  from l k have f: "currentPodsWithCorrectImage example_reconciler example_source =
      Inr (filter (has_correct_image example_source) [example_pod])"
    by (rule currentPodsWithCorrectImage_listed)
  with m u st have o: "overwritePod_value (example_runtime 1001 False) example_reconciler example_source
      (Status_RegistryServiceStatus example_source = None) =
      Inr (False, [Pods_Create ''olm'' (probe_pod example_source)])"
    by (simp add: overwritePod_value_def)
  from l have p: "ensurePod example_reconciler example_source False [] = (None, [])"
    by (simp add: ensurePod_keep currentPods_def)
  from g have "currentService example_reconciler example_source \<noteq> None"
    unfolding currentService_Some by blast
  from ensureService_keep [OF this] st
  have e: "ensureService example_reconciler example_source
      (Status_RegistryServiceStatus example_source = None) [] = (None, [])"
    by simp
  have "EnsureRegistryServer (example_runtime 1001 False) example_reconciler example_source =
     Inr \<lparr>returned = None, descriptor = example_source, calls = [],
          spawned_calls = [Pods_Create ''olm'' (probe_pod example_source)]\<rparr>"
    using EnsureRegistryServer_steps [OF o p e] by simp
  with st l m g u n show ?thesis
    by simp
qed

subsection \<open>Errors of the listers\<close>

text \<open>
  What \<open>EnsureRegistryServer\<close> and \<open>CheckRegistryServer\<close> take from the reconciler:
  the results of the three lookups, the clock and the client.
\<close>

lemma delete_loop_client:
  "OpClient c' = OpClient c \<Longrightarrow> delete_loop c' cs pods tr = delete_loop c cs pods tr"
  by (induction pods arbitrary: tr) (simp_all add: Let_def split: option.splits)

lemma lookups_determine:
  assumes p: "currentPods c' cs = currentPods c cs"
      and i: "currentPodsWithCorrectImage c' cs = currentPodsWithCorrectImage c cs"
      and s: "currentService c' cs = currentService c cs"
      and n: "now c' = now c"
      and k: "OpClient c' = OpClient c"
  shows "EnsureRegistryServer rt c' cs = EnsureRegistryServer rt c cs"
    and "CheckRegistryServer c' cs = CheckRegistryServer c cs"
proof -
  have o: "overwritePod_value rt c' cs = overwritePod_value rt c cs"
    by (rule ext) (simp add: overwritePod_value_def i)
  have dl: "delete_loop c' cs = delete_loop c cs"
    by (rule ext, rule ext) (rule delete_loop_client [OF k])
  have ep: "ensurePod c' cs = ensurePod c cs"
    unfolding ensurePod_def Let_def p k dl by (rule refl)
  have es: "ensureService c' cs = ensureService c cs"
    unfolding ensureService_def Let_def s k by (rule refl)
  show "EnsureRegistryServer rt c' cs = EnsureRegistryServer rt c cs"
    unfolding EnsureRegistryServer_def Let_def o ep es n by (rule refl)
  show "CheckRegistryServer c' cs = CheckRegistryServer c cs"
    unfolding CheckRegistryServer_def Let_def i s by (rule refl)
qed

lemma pod_lister_error:
  assumes "PodLister_List c (cs_Namespace cs) (Selector cs) = Inl e"
  shows "currentPods c cs = []"
    and "currentPodsWithCorrectImage c cs = Inr []"
    and "EnsureRegistryServer rt c cs =
           EnsureRegistryServer rt (c\<lparr>PodLister_List := (\<lambda>namespace sel. Inr [])\<rparr>) cs"
    and "CheckRegistryServer c cs =
           CheckRegistryServer (c\<lparr>PodLister_List := (\<lambda>namespace sel. Inr [])\<rparr>) cs"
proof -
  let ?c' = "c\<lparr>PodLister_List := (\<lambda>namespace sel. Inr [])\<rparr>"
  show p: "currentPods c cs = []"
    using assms by (simp add: currentPods_def)
  show i: "currentPodsWithCorrectImage c cs = Inr []"
    using assms by (rule currentPodsWithCorrectImage_error)
  have p': "currentPods ?c' cs = currentPods c cs"
    by (simp add: p) (simp add: currentPods_def)
  have i': "currentPodsWithCorrectImage ?c' cs = currentPodsWithCorrectImage c cs"
    by (simp add: i) (simp add: currentPodsWithCorrectImage_def)
  have s': "currentService ?c' cs = currentService c cs"
    by (simp add: currentService_def)
  show "EnsureRegistryServer rt c cs = EnsureRegistryServer rt ?c' cs"
    using lookups_determine(1) [OF p' i' s', of rt] by simp
  show "CheckRegistryServer c cs = CheckRegistryServer ?c' cs"
    using lookups_determine(2) [OF p' i' s'] by simp
qed

lemma service_lister_error:
  assumes "ServiceLister_Get c (cs_Namespace cs) (cs_Name cs) = Inl e"
  shows "currentService c cs = None"
    and "EnsureRegistryServer rt c cs =
           EnsureRegistryServer rt (c\<lparr>ServiceLister_Get := (\<lambda>namespace name. Inl e')\<rparr>) cs"
    and "CheckRegistryServer c cs =
           CheckRegistryServer (c\<lparr>ServiceLister_Get := (\<lambda>namespace name. Inl e')\<rparr>) cs"
proof -
  let ?c' = "c\<lparr>ServiceLister_Get := (\<lambda>namespace name. Inl e')\<rparr>"
  show s: "currentService c cs = None"
    using assms by (simp add: currentService_def Service_fields)
  have p': "currentPods ?c' cs = currentPods c cs"
    by (simp add: currentPods_def)
  have i': "currentPodsWithCorrectImage ?c' cs = currentPodsWithCorrectImage c cs"
    by (simp add: currentPodsWithCorrectImage_def)
  have s': "currentService ?c' cs = currentService c cs"
    by (simp add: s) (simp add: currentService_def)
  show "EnsureRegistryServer rt c cs = EnsureRegistryServer rt ?c' cs"
    using lookups_determine(1) [OF p' i' s', of rt] by simp
  show "CheckRegistryServer c cs = CheckRegistryServer ?c' cs"
    using lookups_determine(2) [OF p' i' s'] by simp
qed

text \<open>
  C8. Each lookup on the error of its own lister, whatever the other lister answers.
  When the pod lister returns an error, \<open>currentPods\<close> and
  \<open>currentPodsWithCorrectImage\<close> return the empty list, and \<open>EnsureRegistryServer\<close>
  and \<open>CheckRegistryServer\<close> do what they do when the pod lister finds no pod. When
  the service lister returns an error, \<open>currentService\<close> returns nil, and both
  operations do what they do when the service lister answers with the error for a
  service that is not found (any error \<open>e3\<close>). None of the lookups returns an error.
  When both listers fail, both operations do what they do with a cache that holds no
  pod and no service.
\<close>

theorem lister_error_is_absence:
  "(PodLister_List c (cs_Namespace cs) (Selector cs) = Inl e1 \<longrightarrow>
      currentPods c cs = [] \<and>
      currentPodsWithCorrectImage c cs = Inr [] \<and>
      EnsureRegistryServer rt c cs =
        EnsureRegistryServer rt (c\<lparr>PodLister_List := (\<lambda>namespace sel. Inr [])\<rparr>) cs \<and>
      CheckRegistryServer c cs =
        CheckRegistryServer (c\<lparr>PodLister_List := (\<lambda>namespace sel. Inr [])\<rparr>) cs) \<and>
   (ServiceLister_Get c (cs_Namespace cs) (cs_Name cs) = Inl e2 \<longrightarrow>
      currentService c cs = None \<and>
      EnsureRegistryServer rt c cs =
        EnsureRegistryServer rt (c\<lparr>ServiceLister_Get := (\<lambda>namespace name. Inl e3)\<rparr>) cs \<and>
      CheckRegistryServer c cs =
        CheckRegistryServer (c\<lparr>ServiceLister_Get := (\<lambda>namespace name. Inl e3)\<rparr>) cs) \<and>
   (PodLister_List c (cs_Namespace cs) (Selector cs) = Inl e1 \<and>
    ServiceLister_Get c (cs_Namespace cs) (cs_Name cs) = Inl e2 \<longrightarrow>
      EnsureRegistryServer rt c cs =
        EnsureRegistryServer rt
          (c\<lparr>PodLister_List := (\<lambda>namespace sel. Inr []),
             ServiceLister_Get := (\<lambda>namespace name. Inl e3)\<rparr>) cs \<and>
      CheckRegistryServer c cs =
        CheckRegistryServer
          (c\<lparr>PodLister_List := (\<lambda>namespace sel. Inr []),
             ServiceLister_Get := (\<lambda>namespace name. Inl e3)\<rparr>) cs)"
proof (intro conjI impI)
  assume "PodLister_List c (cs_Namespace cs) (Selector cs) = Inl e1"
  from pod_lister_error [OF this]
  show "currentPods c cs = []"
    and "currentPodsWithCorrectImage c cs = Inr []"
    and "EnsureRegistryServer rt c cs =
        EnsureRegistryServer rt (c\<lparr>PodLister_List := (\<lambda>namespace sel. Inr [])\<rparr>) cs"
    and "CheckRegistryServer c cs =
        CheckRegistryServer (c\<lparr>PodLister_List := (\<lambda>namespace sel. Inr [])\<rparr>) cs"
    by simp_all
next
  assume "ServiceLister_Get c (cs_Namespace cs) (cs_Name cs) = Inl e2"
  from service_lister_error [OF this]
  show "currentService c cs = None"
    and "EnsureRegistryServer rt c cs =
        EnsureRegistryServer rt (c\<lparr>ServiceLister_Get := (\<lambda>namespace name. Inl e3)\<rparr>) cs"
    and "CheckRegistryServer c cs =
        CheckRegistryServer (c\<lparr>ServiceLister_Get := (\<lambda>namespace name. Inl e3)\<rparr>) cs"
    by simp_all
next
  assume b: "PodLister_List c (cs_Namespace cs) (Selector cs) = Inl e1 \<and>
    ServiceLister_Get c (cs_Namespace cs) (cs_Name cs) = Inl e2"
  let ?c1 = "c\<lparr>PodLister_List := (\<lambda>namespace sel. Inr [])\<rparr>"
  from b have g: "ServiceLister_Get ?c1 (cs_Namespace cs) (cs_Name cs) = Inl e2"
    by simp
  from b pod_lister_error(3) [of c cs e1 rt] service_lister_error(2) [OF g, of rt e3]
  show "EnsureRegistryServer rt c cs =
        EnsureRegistryServer rt
          (c\<lparr>PodLister_List := (\<lambda>namespace sel. Inr []),
             ServiceLister_Get := (\<lambda>namespace name. Inl e3)\<rparr>) cs"
    by simp
  from b pod_lister_error(4) [of c cs e1] service_lister_error(3) [OF g, of e3]
  show "CheckRegistryServer c cs =
        CheckRegistryServer
          (c\<lparr>PodLister_List := (\<lambda>namespace sel. Inr []),
             ServiceLister_Get := (\<lambda>namespace name. Inl e3)\<rparr>) cs"
    by simp
qed

text \<open>
  The example with a failing pod lister and the service still found; with a failing
  service lister and the pod still found; and with both failing.
\<close>

theorem lister_error_is_absence_witness:
  "PodLister_List (example_reconciler\<lparr>PodLister_List := (\<lambda>namespace sel. Inl ''cache not synced'')\<rparr>)
     (cs_Namespace example_source) (Selector example_source) = Inl ''cache not synced'' \<and>
   ServiceLister_Get (example_reconciler\<lparr>PodLister_List := (\<lambda>namespace sel. Inl ''cache not synced'')\<rparr>)
     (cs_Namespace example_source) (cs_Name example_source) = Inr (Service example_source) \<and>
   CheckRegistryServer (example_reconciler\<lparr>PodLister_List := (\<lambda>namespace sel. Inl ''cache not synced'')\<rparr>)
     example_source =
   CheckRegistryServer (example_reconciler\<lparr>PodLister_List := (\<lambda>namespace sel. Inr [])\<rparr>)
     example_source \<and>
   EnsureRegistryServer (example_runtime 1001 False)
     (example_reconciler\<lparr>PodLister_List := (\<lambda>namespace sel. Inl ''cache not synced'')\<rparr>)
     example_source =
   EnsureRegistryServer (example_runtime 1001 False)
     (example_reconciler\<lparr>PodLister_List := (\<lambda>namespace sel. Inr [])\<rparr>) example_source \<and>
   ServiceLister_Get (example_reconciler\<lparr>ServiceLister_Get := (\<lambda>namespace name. Inl ''cache not synced'')\<rparr>)
     (cs_Namespace example_source) (cs_Name example_source) = Inl ''cache not synced'' \<and>
   PodLister_List (example_reconciler\<lparr>ServiceLister_Get := (\<lambda>namespace name. Inl ''cache not synced'')\<rparr>)
     (cs_Namespace example_source) (Selector example_source) = Inr [example_pod] \<and>
   EnsureRegistryServer (example_runtime 1001 False)
     (example_reconciler\<lparr>ServiceLister_Get := (\<lambda>namespace name. Inl ''cache not synced'')\<rparr>)
     example_source =
   EnsureRegistryServer (example_runtime 1001 False)
     (example_reconciler\<lparr>ServiceLister_Get := (\<lambda>namespace name. Inl ''not found'')\<rparr>)
     example_source \<and>
   EnsureRegistryServer (example_runtime 1001 False)
     (example_reconciler\<lparr>PodLister_List := (\<lambda>namespace sel. Inl ''cache not synced''),
       ServiceLister_Get := (\<lambda>namespace name. Inl ''cache not synced'')\<rparr>) example_source =
   EnsureRegistryServer (example_runtime 1001 False)
     (example_reconciler\<lparr>PodLister_List := (\<lambda>namespace sel. Inr []),
       ServiceLister_Get := (\<lambda>namespace name. Inl ''not found'')\<rparr>) example_source"
proof -
  let ?cp = "example_reconciler\<lparr>PodLister_List := (\<lambda>namespace sel. Inl ''cache not synced'')\<rparr>"
  let ?cs = "example_reconciler\<lparr>ServiceLister_Get := (\<lambda>namespace name. Inl ''cache not synced'')\<rparr>"
  let ?cb = "example_reconciler\<lparr>PodLister_List := (\<lambda>namespace sel. Inl ''cache not synced''),
             ServiceLister_Get := (\<lambda>namespace name. Inl ''cache not synced'')\<rparr>"
  have l: "PodLister_List example_reconciler (cs_Namespace example_source) (Selector example_source) =
     Inr [example_pod]"
    by (simp add: example_defs)
  have g: "ServiceLister_Get example_reconciler (cs_Namespace example_source) (cs_Name example_source) =
     Inr (Service example_source)"
    by (simp add: example_defs)
  have hp: "PodLister_List ?cp (cs_Namespace example_source) (Selector example_source) =
      Inl ''cache not synced''"
    "PodLister_List ?cb (cs_Namespace example_source) (Selector example_source) =
      Inl ''cache not synced''"
    by simp_all
  have hs: "ServiceLister_Get ?cs (cs_Namespace example_source) (cs_Name example_source) =
      Inl ''cache not synced''"
    "ServiceLister_Get ?cb (cs_Namespace example_source) (cs_Name example_source) =
      Inl ''cache not synced''"
    by simp_all
  from hp(1) lister_error_is_absence
      [of ?cp example_source "''cache not synced''" "example_runtime 1001 False"
          "''cache not synced''" "''not found''"]
  have 1: "CheckRegistryServer ?cp example_source =
      CheckRegistryServer (?cp\<lparr>PodLister_List := (\<lambda>namespace sel. Inr [])\<rparr>) example_source"
    "EnsureRegistryServer (example_runtime 1001 False) ?cp example_source =
      EnsureRegistryServer (example_runtime 1001 False)
        (?cp\<lparr>PodLister_List := (\<lambda>namespace sel. Inr [])\<rparr>) example_source"
    by blast+
  from hs(1) lister_error_is_absence
      [of ?cs example_source "''cache not synced''" "example_runtime 1001 False"
          "''cache not synced''" "''not found''"]
  have 2: "EnsureRegistryServer (example_runtime 1001 False) ?cs example_source =
      EnsureRegistryServer (example_runtime 1001 False)
        (?cs\<lparr>ServiceLister_Get := (\<lambda>namespace name. Inl ''not found'')\<rparr>) example_source"
    by blast
  from hp(2) hs(2) lister_error_is_absence
      [of ?cb example_source "''cache not synced''" "example_runtime 1001 False"
          "''cache not synced''" "''not found''"]
  have 3: "EnsureRegistryServer (example_runtime 1001 False) ?cb example_source =
      EnsureRegistryServer (example_runtime 1001 False)
        (?cb\<lparr>PodLister_List := (\<lambda>namespace sel. Inr []),
             ServiceLister_Get := (\<lambda>namespace name. Inl ''not found'')\<rparr>) example_source"
    by blast
  from l g 1 2 3 show ?thesis
    by simp
qed

subsection \<open>Index panics\<close>

lemma getPodDigest_safe:
  assumes "\<forall>pod. probe_Create rt (cs_Namespace cs) (probe_pod cs) = Inr pod \<longrightarrow>
             pod_ContainerStatuses pod \<noteq> [] \<and> pod_Containers pod \<noteq> []"
  shows "\<exists>v. snd (getPodDigest rt cs) = Inr v"
proof (cases "probe_Create rt (cs_Namespace cs) (probe_pod cs)")
  case (Inl e)
  then show ?thesis
    by (simp add: getPodDigest_def)
next
  case (Inr pod)
  with assms obtain st sts k ks
    where "pod_ContainerStatuses pod = st # sts" and "pod_Containers pod = k # ks"
    by (cases "pod_ContainerStatuses pod"; cases "pod_Containers pod") auto
  with Inr show ?thesis
    by (simp add: getPodDigest_def digest_loop_10)
qed

lemma overwritePod_value_safe:
  assumes P1: "\<forall>pods. PodLister_List c (cs_Namespace cs) (Selector cs) = Inr pods \<longrightarrow>
                 (\<forall>p\<in>set pods. pod_Containers p \<noteq> [])"
      and P2: "\<forall>pod. probe_Create rt (cs_Namespace cs) (probe_pod cs) = Inr pod \<longrightarrow>
                 pod_ContainerStatuses pod \<noteq> [] \<and> pod_Containers pod \<noteq> []"
      and P3: "\<forall>d. podDigestChan rt cs \<noteq> Inr (Some d)"
  shows "\<exists>v. overwritePod_value rt c cs b = Inr v"
proof -
  from P1 have f: "\<exists>found. currentPodsWithCorrectImage c cs = Inr found"
    by (rule currentPodsWithCorrectImage_safe)
  have "\<exists>v. podDigestChan rt cs = Inr v"
  proof (cases "probe_started rt cs \<and> probe_runs_first rt")
    case True
    with getPodDigest_safe [OF P2] show ?thesis
      by (simp add: podDigestChan_def)
  next
    case False
    then show ?thesis
      by (auto simp: podDigestChan_def)
  qed
  with P3 have "podDigestChan rt cs = Inr None"
    by (cases "podDigestChan rt cs") auto
  then have "\<exists>v. updateRegistryPodByDigest rt cs = Inr v"
    using updateRegistryPodByDigest_nothing_delivered [of rt cs] by blast
  with f show ?thesis
    by (auto simp: overwritePod_value_def)
qed

lemma EnsureRegistryServer_returns:
  assumes "overwritePod_value rt c cs (Status_RegistryServiceStatus cs = None) = Inr v"
  shows "\<exists>r. EnsureRegistryServer rt c cs = Inr r"
proof -
  obtain b spawned where v: "v = (b, spawned)"
    by (cases v)
  obtain e1 tr1 where p: "ensurePod c cs b [] = (e1, tr1)"
    by (cases "ensurePod c cs b []")
  obtain e2 tr2 where s: "ensureService c cs (Status_RegistryServiceStatus cs = None) tr1 = (e2, tr2)"
    by (cases "ensureService c cs (Status_RegistryServiceStatus cs = None) tr1")
  from EnsureRegistryServer_steps [OF assms [unfolded v] p s] show ?thesis
    by blast
qed

lemma CheckRegistryServer_returns:
  "currentPodsWithCorrectImage c cs = Inr found \<Longrightarrow> \<exists>h. CheckRegistryServer c cs = Inr h"
  by (auto simp: CheckRegistryServer_def)

text \<open>
  The places that index a slice. \<open>currentPodsWithCorrectImage\<close> indexes the first
  container of every pod that the cache lookup returns, and panics when one of them has
  none; so do \<open>CheckRegistryServer\<close>, and \<open>EnsureRegistryServer\<close> when the status is
  present. The branch of \<open>updateRegistryPodByDigest\<close> that has received a digest
  indexes the container statuses of the desired pod, which has none, and panics.
  When every pod of the cache lookup has a container, when the pod that the store
  returns to the probe has a container and a container status (whether the probe has
  run to its end or not), and when no digest is delivered, both operations return.
\<close>

lemma index_panic_sites:
  "(\<forall>pods. PodLister_List c (cs_Namespace cs) (Selector cs) = Inr pods \<and>
        (\<exists>p\<in>set pods. pod_Containers p = []) \<longrightarrow>
      currentPodsWithCorrectImage c cs = Inl IndexOutOfRange \<and>
      CheckRegistryServer c cs = Inl IndexOutOfRange \<and>
      (Status_RegistryServiceStatus cs \<noteq> None \<longrightarrow>
         EnsureRegistryServer rt c cs = Inl IndexOutOfRange)) \<and>
   pod_ContainerStatuses (decorator_Pod cs) = [] \<and>
   (\<forall>d. podDigestChan rt cs = Inr (Some d) \<longrightarrow>
      updateRegistryPodByDigest rt cs = Inl IndexOutOfRange) \<and>
   ((\<forall>pods. PodLister_List c (cs_Namespace cs) (Selector cs) = Inr pods \<longrightarrow>
        (\<forall>p\<in>set pods. pod_Containers p \<noteq> [])) \<longrightarrow>
    (\<exists>h. CheckRegistryServer c cs = Inr h)) \<and>
   ((\<forall>pods. PodLister_List c (cs_Namespace cs) (Selector cs) = Inr pods \<longrightarrow>
        (\<forall>p\<in>set pods. pod_Containers p \<noteq> [])) \<and>
    (\<forall>pod. probe_Create rt (cs_Namespace cs) (probe_pod cs) = Inr pod \<longrightarrow>
        pod_ContainerStatuses pod \<noteq> [] \<and> pod_Containers pod \<noteq> []) \<and>
    (\<forall>d. podDigestChan rt cs \<noteq> Inr (Some d)) \<longrightarrow>
    (\<exists>r. EnsureRegistryServer rt c cs = Inr r))"
proof -
  have a: "currentPodsWithCorrectImage c cs = Inl IndexOutOfRange \<and>
      CheckRegistryServer c cs = Inl IndexOutOfRange \<and>
      (Status_RegistryServiceStatus cs \<noteq> None \<longrightarrow>
         EnsureRegistryServer rt c cs = Inl IndexOutOfRange)"
    if "PodLister_List c (cs_Namespace cs) (Selector cs) = Inr pods"
      and "\<exists>p\<in>set pods. pod_Containers p = []" for pods
    using currentPodsWithCorrectImage_panics [OF that]
    by (auto simp: CheckRegistryServer_def EnsureRegistryServer_def overwritePod_value_def)
  have b: "updateRegistryPodByDigest rt cs = Inl IndexOutOfRange"
    if "podDigestChan rt cs = Inr (Some d)" for d
    using that by (rule updateRegistryPodByDigest_delivered)
  have c: "\<exists>h. CheckRegistryServer c cs = Inr h"
    if P1: "\<forall>pods. PodLister_List c (cs_Namespace cs) (Selector cs) = Inr pods \<longrightarrow>
                 (\<forall>p\<in>set pods. pod_Containers p \<noteq> [])"
    using currentPodsWithCorrectImage_safe [OF P1] CheckRegistryServer_returns by blast
  have d: "\<exists>r. EnsureRegistryServer rt c cs = Inr r"
    if P1: "\<forall>pods. PodLister_List c (cs_Namespace cs) (Selector cs) = Inr pods \<longrightarrow>
                 (\<forall>p\<in>set pods. pod_Containers p \<noteq> [])"
      and P2: "\<forall>pod. probe_Create rt (cs_Namespace cs) (probe_pod cs) = Inr pod \<longrightarrow>
                 pod_ContainerStatuses pod \<noteq> [] \<and> pod_Containers pod \<noteq> []"
      and P3: "\<forall>d. podDigestChan rt cs \<noteq> Inr (Some d)"
  proof -
    from overwritePod_value_safe [OF P1 P2 P3]
    obtain v where "overwritePod_value rt c cs (Status_RegistryServiceStatus cs = None) = Inr v"
      by blast
    then show ?thesis
      by (rule EnsureRegistryServer_returns)
  qed
  from a b c d decorator_Pod_fields(1) [of cs] show ?thesis
    by blast
qed


text \<open>
  The probe's own index (\<open>pod.Status.ContainerStatuses[0]\<close> in \<open>getPodDigest\<close>): when
  the store returns the pod as it was created, with no container status yet, the
  probe panics.
\<close>

lemma probe_panics_on_pod_without_status:
  "snd (getPodDigest ((example_runtime 1001 True)\<lparr>probe_Create := (\<lambda>namespace p. Inr p)\<rparr>)
     example_source) = Inl IndexOutOfRange"
  by (simp add: getPodDigest_def digest_loop_10 probe_pod_fields decorator_Pod_def Pod_def
      probe_pod_def)


subsection \<open>The probe pod\<close>

lemma correct_image_loop_subset:
  "correct_image_loop cs pods found0 = Inr found \<Longrightarrow> set found \<subseteq> set found0 \<union> set pods"
proof (induction pods arbitrary: found0)
  case Nil
  then show ?case
    by simp
next
  case (Cons p pods)
  note IH = Cons.IH and run = Cons.prems
  show ?case
  proof (cases "pod_Containers p")
    case Nil
    with run show ?thesis
      by simp
  next
    case (Cons k ks)
    show ?thesis
    proof (cases "container_Image k = Spec_Image cs")
      case True
      with run Cons have "correct_image_loop cs pods (found0 @ [p]) = Inr found"
        by simp
      from IH [OF this] show ?thesis
        by auto
    next
      case False
      with run Cons have "correct_image_loop cs pods found0 = Inr found"
        by simp
      from IH [OF this] show ?thesis
        by auto
    qed
  qed
qed

lemma store_List_matches:
  "store_List store namespace sel = Inr pods \<Longrightarrow> q \<in> set pods \<Longrightarrow> Matches sel (pod_Labels q)"
  by (auto simp: store_List_def)

lemma EnsureRegistryServer_spawned:
  assumes "EnsureRegistryServer rt c cs = Inr r"
  shows "set (spawned_calls r) \<subseteq> {Pods_Create (cs_Namespace cs) (probe_pod cs)}"
proof (cases "overwritePod_value rt c cs (Status_RegistryServiceStatus cs = None)")
  case (Inl panic)
  with assms show ?thesis
    by (simp add: EnsureRegistryServer_def)
next
  case (Inr v)
  obtain b spawned where v: "v = (b, spawned)"
    by (cases v)
  obtain e1 tr1 where p: "ensurePod c cs b [] = (e1, tr1)"
    by (cases "ensurePod c cs b []")
  obtain e2 tr2 where s: "ensureService c cs (Status_RegistryServiceStatus cs = None) tr1 = (e2, tr2)"
    by (cases "ensureService c cs (Status_RegistryServiceStatus cs = None) tr1")
  from EnsureRegistryServer_steps [OF Inr [unfolded v] p s] assms
  have r: "spawned_calls r = spawned"
    by (auto split: option.splits)
  from Inr v have "spawned = [] \<or> updateRegistryPodByDigest rt cs = Inr (b, spawned)"
    by (auto simp: overwritePod_value_def split: if_splits sum.splits)
  with r updateRegistryPodByDigest_spawned [of rt cs b spawned] show ?thesis
    by (auto split: if_splits)
qed

text \<open>
  C9. For a CatalogSource with a non-empty name: the call that \<open>getPodDigest\<close> issues
  is the create of the probe pod, and what \<open>getPodDigest\<close> does depends on the store
  through its answer to that one call; the calls of the goroutines that
  \<open>updateRegistryPodByDigest\<close> and \<open>EnsureRegistryServer\<close> start are creates of that
  pod and nothing else. The probe pod has the containers of the desired pod, so the
  same image, and its canonical label has the empty string as value instead of the
  name of the CatalogSource: the pair of the key and the name is not among its labels.
  So its labels match neither the selector of the reconciler's lookups nor the selector
  of the service, and a pod lister that answers by the selector never returns a pod
  with these labels to \<open>currentPods\<close> or \<open>currentPodsWithCorrectImage\<close>.
\<close>

theorem probe_pod_never_selected:
  assumes "cs_Name cs \<noteq> ''''"
  shows "fst (getPodDigest rt cs) = Pods_Create (cs_Namespace cs) (probe_pod cs) \<and>
         (\<forall>rt'. probe_Create rt' (cs_Namespace cs) (probe_pod cs) =
                  probe_Create rt (cs_Namespace cs) (probe_pod cs) \<longrightarrow>
                getPodDigest rt' cs = getPodDigest rt cs) \<and>
         (\<forall>b spawned. updateRegistryPodByDigest rt cs = Inr (b, spawned) \<longrightarrow>
            set spawned \<subseteq> {Pods_Create (cs_Namespace cs) (probe_pod cs)}) \<and>
         (\<forall>r. EnsureRegistryServer rt c cs = Inr r \<longrightarrow>
            set (spawned_calls r) \<subseteq> {Pods_Create (cs_Namespace cs) (probe_pod cs)}) \<and>
         pod_Containers (probe_pod cs) = pod_Containers (decorator_Pod cs) \<and>
         map container_Image (pod_Containers (probe_pod cs)) = [Spec_Image cs] \<and>
         map_of (pod_Labels (probe_pod cs)) CatalogSourceLabelKey = Some '''' \<and>
         (CatalogSourceLabelKey, cs_Name cs) \<notin> set (pod_Labels (probe_pod cs)) \<and>
         \<not> Matches (Selector cs) (pod_Labels (probe_pod cs)) \<and>
         \<not> Matches (SelectorFromValidatedSet (Labels cs)) (pod_Labels (probe_pod cs)) \<and>
         \<not> Matches (SelectorFromValidatedSet (svc_Selector (Service cs))) (pod_Labels (probe_pod cs)) \<and>
         (\<forall>store q. pod_Labels q = pod_Labels (probe_pod cs) \<longrightarrow>
            q \<notin> set (currentPods (c\<lparr>PodLister_List := store_List store\<rparr>) cs) \<and>
            (\<forall>found. currentPodsWithCorrectImage (c\<lparr>PodLister_List := store_List store\<rparr>) cs =
                        Inr found \<longrightarrow> q \<notin> set found))"
proof -
  have 1: "fst (getPodDigest rt cs) = Pods_Create (cs_Namespace cs) (probe_pod cs)"
    by (rule getPodDigest_call)
  have 2: "getPodDigest rt' cs = getPodDigest rt cs"
    if "probe_Create rt' (cs_Namespace cs) (probe_pod cs) =
        probe_Create rt (cs_Namespace cs) (probe_pod cs)" for rt'
    using that by (simp add: getPodDigest_def Let_def)
  have 3: "set spawned \<subseteq> {Pods_Create (cs_Namespace cs) (probe_pod cs)}"
    if "updateRegistryPodByDigest rt cs = Inr (b, spawned)" for b spawned
    using updateRegistryPodByDigest_spawned [OF that] by (auto split: if_splits)
  have 4: "set (spawned_calls r) \<subseteq> {Pods_Create (cs_Namespace cs) (probe_pod cs)}"
    if "EnsureRegistryServer rt c cs = Inr r" for r
    using that by (rule EnsureRegistryServer_spawned)
  have 5: "pod_Containers (probe_pod cs) = pod_Containers (decorator_Pod cs)"
    "map container_Image (pod_Containers (probe_pod cs)) = [Spec_Image cs]"
    "map_of (pod_Labels (probe_pod cs)) CatalogSourceLabelKey = Some ''''"
    "(CatalogSourceLabelKey, cs_Name cs) \<notin> set (pod_Labels (probe_pod cs))"
    using assms by (auto simp: probe_pod_fields decorator_Pod_fields)
  have 6: "\<not> Matches (Selector cs) (pod_Labels (probe_pod cs))"
    using assms
    by (simp add: probe_pod_fields Selector_def SelectorFromValidatedSet_def Matches_def)
  then have 7: "\<not> Matches (SelectorFromValidatedSet (Labels cs)) (pod_Labels (probe_pod cs))"
    "\<not> Matches (SelectorFromValidatedSet (svc_Selector (Service cs))) (pod_Labels (probe_pod cs))"
    by (simp_all add: Selector_Labels Service_fields)
  have 8: "q \<notin> set (currentPods (c\<lparr>PodLister_List := store_List store\<rparr>) cs) \<and>
      (\<forall>found. currentPodsWithCorrectImage (c\<lparr>PodLister_List := store_List store\<rparr>) cs =
                  Inr found \<longrightarrow> q \<notin> set found)"
    if q: "pod_Labels q = pod_Labels (probe_pod cs)" for store q
  proof
    let ?c = "c\<lparr>PodLister_List := store_List store\<rparr>"
    obtain pods where l: "store_List store (cs_Namespace cs) (Selector cs) = Inr pods"
      by (simp add: store_List_def)
    have n: "q \<notin> set pods"
    proof
      assume "q \<in> set pods"
      with l have "Matches (Selector cs) (pod_Labels q)"
        by (rule store_List_matches)
      with 6 q show False
        by simp
    qed
    from l n show "q \<notin> set (currentPods ?c cs)"
      by (simp add: currentPods_def)
    show "\<forall>found. currentPodsWithCorrectImage ?c cs = Inr found \<longrightarrow> q \<notin> set found"
    proof (intro allI impI)
      fix found
      assume "currentPodsWithCorrectImage ?c cs = Inr found"
      with l have "correct_image_loop cs pods [] = Inr found"
        by (simp add: currentPodsWithCorrectImage_def Selector_Labels [symmetric])
      from correct_image_loop_subset [OF this] n show "q \<notin> set found"
        by auto
    qed
  qed
  from 1 2 3 4 5 6 7 8 show ?thesis
    by blast
qed

text \<open>
  The example: the probe pod is what \<open>getPodDigest\<close> creates, and a store that holds
  the serving pod and the stored probe pod returns the serving pod alone.
\<close>

theorem probe_pod_never_selected_witness:
  "cs_Name example_source \<noteq> '''' \<and>
   fst (getPodDigest (example_runtime 1001 True) example_source) =
     Pods_Create ''olm'' (probe_pod example_source) \<and>
   pod_Labels (probe_pod example_source) = [(''olm.catalogSource'', '''')] \<and>
   \<not> Matches (Selector example_source) (pod_Labels (probe_pod example_source)) \<and>
   currentPods
     (example_reconciler\<lparr>PodLister_List := store_List
        [example_pod\<lparr>pod_Namespace := ''olm''\<rparr>,
         (probe_pod example_source)\<lparr>pod_Name := ''catalog-probe'', pod_Namespace := ''olm''\<rparr>]\<rparr>)
     example_source = [example_pod\<lparr>pod_Namespace := ''olm''\<rparr>]"
proof -
  have n: "cs_Name example_source \<noteq> ''''" "cs_Namespace example_source = ''olm''"
    by (simp_all add: example_source_def)
  have p: "currentPods
     (example_reconciler\<lparr>PodLister_List := store_List
        [example_pod\<lparr>pod_Namespace := ''olm''\<rparr>,
         (probe_pod example_source)\<lparr>pod_Name := ''catalog-probe'', pod_Namespace := ''olm''\<rparr>]\<rparr>)
     example_source = [example_pod\<lparr>pod_Namespace := ''olm''\<rparr>]"
    by (simp add: currentPods_def store_List_def probe_pod_def example_defs)
  have l: "pod_Labels (probe_pod example_source) = [(''olm.catalogSource'', '''')]"
    by (simp add: probe_pod_fields CatalogSourceLabelKey_def)
  note t = probe_pod_never_selected [OF n(1), of "example_runtime 1001 True" example_reconciler]
  from t have "fst (getPodDigest (example_runtime 1001 True) example_source) =
      Pods_Create (cs_Namespace example_source) (probe_pod example_source)"
    by (rule conjunct1)
  then have a: "fst (getPodDigest (example_runtime 1001 True) example_source) =
      Pods_Create ''olm'' (probe_pod example_source)"
    unfolding n(2) .
  from t have b: "\<not> Matches (Selector example_source) (pod_Labels (probe_pod example_source))"
    by blast
  from n(1) a l b p show ?thesis
    by blast
qed

text \<open>With the empty name the probe pod is selected: the hypothesis is needed.\<close>

lemma probe_pod_selected_without_name:
  "cs_Name cs = '''' \<Longrightarrow> Matches (Selector cs) (pod_Labels (probe_pod cs))"
  by (simp add: probe_pod_fields Selector_def SelectorFromValidatedSet_def Matches_def)

end
